theory Spec2Isabelle
  imports Main "HOL-Library.Word"
begin

section \<open>Host-language values\<close>

text \<open>
  Strings are lists of 8-bit characters: the model covers descriptor text whose
  UTF-16 code units are below 256 (descriptors are ASCII). A \<open>Buffer\<close> is a list of bytes.
\<close>

type_synonym byte = "8 word"
type_synonym Buffer = "byte list"

text \<open>
  A JavaScript number as the code observes it: \<open>Number.isInteger\<close> holds exactly of
  \<open>Integer i\<close>; \<open>NotInteger\<close> stands for a fractional number, NaN, an infinity and for
  an absent (undefined) argument.
\<close>

datatype js_number = Integer int | NotInteger

definition digit_char :: "nat \<Rightarrow> char" where
  "digit_char d = ''0123456789'' ! (d mod 10)"

text \<open>
  The decimal digits of a natural number. This is the text the host gives a number that
  is an integer below \<open>2^53\<close>, and so the text of every array length.
\<close>

fun decimal :: "nat \<Rightarrow> string" where
  "decimal n = (if n < 10 then [digit_char n] else decimal (n div 10) @ [digit_char n])"

declare decimal.simps [simp del]

definition is_digit :: "char \<Rightarrow> bool" where
  "is_digit c = (c \<in> set ''0123456789'')"

definition digit_value :: "char \<Rightarrow> int" where
  "digit_value c = int (length (takeWhile (\<lambda>d. d \<noteq> c) ''0123456789''))"

text \<open>
  \<open>Number(s)\<close> on the strings the code applies it to: a string of decimal digits is
  its value (the empty string is 0); \<open>None\<close> is NaN. The code only compares the result
  with \<open>2^31\<close> and tests it for integrality, which rounding to a double leaves unchanged.
\<close>

definition js_Number :: "string \<Rightarrow> int option" where
  "js_Number s = (if list_all is_digit s
     then Some (foldl (\<lambda>acc c. 10 * acc + digit_value c) 0 s) else None)"

subsection \<open>String methods\<close>

definition startsWith :: "string \<Rightarrow> string \<Rightarrow> bool" where
  "startsWith s p = (take (length p) s = p)"

definition endsWith :: "string \<Rightarrow> string \<Rightarrow> bool" where
  "endsWith s p = (length p \<le> length s \<and> drop (length s - length p) s = p)"

text \<open>\<open>s.replaceAll(p, r)\<close> for a literal, non-empty pattern \<open>p\<close>, left to right.\<close>

function replaceAll :: "string \<Rightarrow> string \<Rightarrow> string \<Rightarrow> string" where
  "replaceAll p r [] = []"
| "replaceAll p r (c # cs) =
     (if p \<noteq> [] \<and> startsWith (c # cs) p
      then r @ replaceAll p r (drop (length p - 1) cs)
      else c # replaceAll p r cs)"
  by pat_completeness auto
termination
  by (relation "measure (\<lambda>(p, r, s). length s)") auto

text \<open>\<open>s.split(sep)\<close> for a one-character separator.\<close>

fun split_on :: "char \<Rightarrow> string \<Rightarrow> string list" where
  "split_on sep [] = [[]]"
| "split_on sep (c # cs) =
     (if c = sep then [] # split_on sep cs
      else (case split_on sep cs of [] \<Rightarrow> [[c]] | w # ws \<Rightarrow> (c # w) # ws))"

text \<open>The white space and line terminators of the host language, among 8-bit characters.\<close>

definition space_chars :: string where
  "space_chars = [CHR 0x09, CHR 0x0A, CHR 0x0B, CHR 0x0C, CHR 0x0D, CHR '' '', CHR 0xA0]"

definition is_space :: "char \<Rightarrow> bool" where
  "is_space c = (c \<in> set space_chars)"

definition trim :: "string \<Rightarrow> string" where
  "trim s = rev (dropWhile is_space (rev (dropWhile is_space s)))"

subsection \<open>Buffers and hexadecimal text\<close>

definition hex_digit :: "nat \<Rightarrow> char" where
  "hex_digit d = ''0123456789abcdef'' ! (d mod 16)"

definition hex_chars :: string where
  "hex_chars = ''0123456789abcdefABCDEF''"

definition hex_value :: "char \<Rightarrow> nat" where
  "hex_value c = (let i = length (takeWhile (\<lambda>d. d \<noteq> c) hex_chars) in if i < 16 then i else i - 6)"

text \<open>\<open>buffer.toString('hex')\<close>\<close>

definition toString_hex :: "Buffer \<Rightarrow> string" where
  "toString_hex b = concat (map (\<lambda>x. [hex_digit (unat x div 16), hex_digit (unat x mod 16)]) b)"

text \<open>
  \<open>Buffer.from(s, 'hex')\<close>: one byte for every pair of hexadecimal digits, stopping at
  the first pair that is not one (a trailing single digit is dropped).
\<close>

fun Buffer_from_hex :: "string \<Rightarrow> Buffer" where
  "Buffer_from_hex (a # b # s) =
     (if a \<in> set hex_chars \<and> b \<in> set hex_chars
      then of_nat (16 * hex_value a + hex_value b) # Buffer_from_hex s else [])"
| "Buffer_from_hex _ = []"

section \<open>Regular expressions\<close>

text \<open>
  The patterns of the source are kept as values of a datatype and run by a backtracking
  matcher that returns the possible continuations in the order in which the host engine
  tries them (alternatives left to right, greedy quantifiers longest first, lazy ones
  shortest first). \<open>Group1\<close> marks the one capturing group whose text the code reads
  (\<open>m[1]\<close>); the other parentheses of the source only group.
\<close>

datatype regex =
    Lit string
  | Cls "char list"
  | Dot
  | Bol
  | Eol
  | WordBoundary
  | NotBehind "char list"
  | NotAhead "char list"
  | Seq regex regex
  | Alt regex regex
  | Opt regex
  | Star regex
  | LazyStar regex
  | Rep nat nat regex
  | Group1 regex

text \<open>
  A matcher state: the text captured by group 1 so far, the input before the cursor
  (reversed) and the input after it.
\<close>

type_synonym mstate = "string option \<times> string \<times> string"

definition remaining :: "mstate \<Rightarrow> nat" where
  "remaining st = length (snd (snd st))"

definition is_line_terminator :: "char \<Rightarrow> bool" where
  "is_line_terminator c = (c = CHR 0x0A \<or> c = CHR 0x0D)"

definition is_word_char :: "char \<Rightarrow> bool" where
  "is_word_char c =
     (c \<in> set ''ABCDEFGHIJKLMNOPQRSTUVWXYZabcdefghijklmnopqrstuvwxyz0123456789_'')"

definition at_word_char :: "string \<Rightarrow> bool" where
  "at_word_char s = (case s of [] \<Rightarrow> False | c # _ \<Rightarrow> is_word_char c)"

fun star_greedy :: "(mstate \<Rightarrow> mstate list) \<Rightarrow> nat \<Rightarrow> mstate \<Rightarrow> mstate list" where
  "star_greedy m 0 st = [st]"
| "star_greedy m (Suc n) st =
     concat (map (\<lambda>st'. if remaining st' < remaining st then star_greedy m n st' else []) (m st))
     @ [st]"

fun star_lazy :: "(mstate \<Rightarrow> mstate list) \<Rightarrow> nat \<Rightarrow> mstate \<Rightarrow> mstate list" where
  "star_lazy m 0 st = [st]"
| "star_lazy m (Suc n) st =
     st # concat (map (\<lambda>st'. if remaining st' < remaining st then star_lazy m n st' else []) (m st))"

fun rep_exact :: "(mstate \<Rightarrow> mstate list) \<Rightarrow> nat \<Rightarrow> mstate \<Rightarrow> mstate list" where
  "rep_exact m 0 st = [st]"
| "rep_exact m (Suc n) st = concat (map (rep_exact m n) (m st))"

fun rep_most :: "(mstate \<Rightarrow> mstate list) \<Rightarrow> nat \<Rightarrow> mstate \<Rightarrow> mstate list" where
  "rep_most m 0 st = [st]"
| "rep_most m (Suc n) st = concat (map (rep_most m n) (m st)) @ [st]"

primrec rmatch :: "regex \<Rightarrow> mstate \<Rightarrow> mstate list" where
  "rmatch (Lit w) st = (case st of (g, b, a) \<Rightarrow>
     if take (length w) a = w then [(g, rev w @ b, drop (length w) a)] else [])"
| "rmatch (Cls cs) st = (case st of (g, b, a) \<Rightarrow>
     (case a of [] \<Rightarrow> [] | c # a' \<Rightarrow> if c \<in> set cs then [(g, c # b, a')] else []))"
| "rmatch Dot st = (case st of (g, b, a) \<Rightarrow>
     (case a of [] \<Rightarrow> [] | c # a' \<Rightarrow> if is_line_terminator c then [] else [(g, c # b, a')]))"
| "rmatch Bol st = (case st of (g, b, a) \<Rightarrow> if b = [] then [st] else [])"
| "rmatch Eol st = (case st of (g, b, a) \<Rightarrow> if a = [] then [st] else [])"
| "rmatch WordBoundary st = (case st of (g, b, a) \<Rightarrow>
     if at_word_char b \<noteq> at_word_char a then [st] else [])"
| "rmatch (NotBehind cs) st = (case st of (g, b, a) \<Rightarrow>
     (case b of [] \<Rightarrow> [st] | c # _ \<Rightarrow> if c \<in> set cs then [] else [st]))"
| "rmatch (NotAhead cs) st = (case st of (g, b, a) \<Rightarrow>
     (case a of [] \<Rightarrow> [st] | c # _ \<Rightarrow> if c \<in> set cs then [] else [st]))"
| "rmatch (Seq r1 r2) st = concat (map (rmatch r2) (rmatch r1 st))"
| "rmatch (Alt r1 r2) st = rmatch r1 st @ rmatch r2 st"
| "rmatch (Opt r) st = rmatch r st @ [st]"
| "rmatch (Star r) st = star_greedy (rmatch r) (remaining st) st"
| "rmatch (LazyStar r) st = star_lazy (rmatch r) (remaining st) st"
| "rmatch (Rep lo hi r) st =
     concat (map (rep_most (rmatch r) (hi - lo)) (rep_exact (rmatch r) lo st))"
| "rmatch (Group1 r) st =
     map (\<lambda>st'. (Some (take (remaining st - remaining st') (snd (snd st))), snd st')) (rmatch r st)"

definition Plus :: "regex \<Rightarrow> regex" where
  "Plus r = Seq r (Star r)"

fun seqs :: "regex list \<Rightarrow> regex" where
  "seqs [] = Lit []"
| "seqs [r] = r"
| "seqs (r # rs) = Seq r (seqs rs)"

fun alts :: "regex list \<Rightarrow> regex" where
  "alts [] = Cls []"
| "alts [r] = r"
| "alts (r # rs) = Alt r (alts rs)"

text \<open>The result of a successful match: where it starts, its text \<open>m[0]\<close> and \<open>m[1]\<close>.\<close>

record match_result =
  m_index :: nat
  m0 :: string
  m1 :: "string option"

text \<open>
  \<open>s.match(re)\<close> and \<open>re.exec(s)\<close> without the global flag: the first start position,
  from the left, at which the pattern matches, with the first continuation found there.
\<close>

fun search_from :: "regex \<Rightarrow> string \<Rightarrow> string \<Rightarrow> match_result option" where
  "search_from re bef [] =
     (case rmatch re (None, bef, []) of
        [] \<Rightarrow> None
      | st # _ \<Rightarrow> Some \<lparr>m_index = length bef, m0 = [], m1 = fst st\<rparr>)"
| "search_from re bef (c # cs) =
     (case rmatch re (None, bef, c # cs) of
        [] \<Rightarrow> search_from re (c # bef) cs
      | st # _ \<Rightarrow> Some \<lparr>m_index = length bef,
                       m0 = take (Suc (length cs) - remaining st) (c # cs), m1 = fst st\<rparr>)"

definition js_match :: "string \<Rightarrow> regex \<Rightarrow> match_result option" where
  "js_match s re = search_from re [] s"

text \<open>
  All matches of a pattern with the global flag, left to right and not overlapping, as
  the pieces of the subject: each match with the unmatched text before it, and the text
  after the last match. After an empty match the scan moves on by one character.
\<close>

function scan_all :: "regex \<Rightarrow> string \<Rightarrow> string \<Rightarrow> string \<Rightarrow> (string \<times> string) list \<times> string" where
  "scan_all re bef skipped [] =
     (case rmatch re (None, bef, []) of
        [] \<Rightarrow> ([], rev skipped)
      | st # _ \<Rightarrow> ([(rev skipped, [])], []))"
| "scan_all re bef skipped (c # cs) =
     (case rmatch re (None, bef, c # cs) of
        [] \<Rightarrow> scan_all re (c # bef) (c # skipped) cs
      | st # _ \<Rightarrow>
          (let k = Suc (length cs) - remaining st in
           if k = 0
           then (case scan_all re (c # bef) [c] cs of
                   (ms, rest) \<Rightarrow> ((rev skipped, []) # ms, rest))
           else (case scan_all re (rev (take k (c # cs)) @ bef) [] (drop k (c # cs)) of
                   (ms, rest) \<Rightarrow> ((rev skipped, take k (c # cs)) # ms, rest))))"
  by pat_completeness auto
termination
  by (relation "measure (\<lambda>(re, bef, skipped, s). length s)") auto

definition js_match_all :: "string \<Rightarrow> regex \<Rightarrow> (string \<times> string) list \<times> string" where
  "js_match_all s re = scan_all re [] [] s"

text \<open>\<open>s.replace(re, r)\<close> with the global flag and a replacement text without \<open>$\<close>.\<close>

definition js_replace_all :: "string \<Rightarrow> regex \<Rightarrow> string \<Rightarrow> string" where
  "js_replace_all s re r =
     (case js_match_all s re of (ms, rest) \<Rightarrow> concat (map (\<lambda>(pre, m). pre @ r) ms) @ rest)"

text \<open>\<open>s.replace(re, r)\<close> without the global flag: the first match only.\<close>

definition js_replace_first :: "string \<Rightarrow> regex \<Rightarrow> string \<Rightarrow> string" where
  "js_replace_first s re r =
     (case js_match s re of
        None \<Rightarrow> s
      | Some m \<Rightarrow> take (m_index m) s @ r @ drop (m_index m + length (m0 m)) s)"

text \<open>\<open>s.search(re)\<close>: the index of the first match, \<open>-1\<close> when there is none.\<close>

definition js_search :: "string \<Rightarrow> regex \<Rightarrow> int" where
  "js_search s re = (case js_match s re of None \<Rightarrow> - 1 | Some m \<Rightarrow> int (m_index m))"

section \<open>Errors, networks and the services the code consumes\<close>

text \<open>
  Every \<open>throw\<close> of the source is a constructor, carrying what the message interpolates.
  \<open>InvalidWif\<close>, \<open>InvalidExtendedKey\<close> and \<open>ExternalFailure\<close> stand for an exception
  raised inside an external service.
\<close>

datatype error =
    MissingChecksum string
  | InvalidChecksum string
  | InvalidIndex js_number
  | PathElementOverflow
  | BadKeyExpression string
  | InvalidPubKey
  | InvalidWif
  | InvalidExtendedKey
  | XpubNotMatched
  | XprvNotMatched
  | PathNotExtracted
  | NoPubKeyForKeyExpression string
  | CouldNotDecompile Buffer
  | DuplicateKey string
  | UnsaneMiniscript string
  | InvalidKeyMap string
  | Unsatisfiable string
  | InvalidExpression string
  | KeyExpressionNotExtracted
  | MiniscriptNotFound string
  | MiniscriptDisallowedInP2SH
  | ScriptTooLarge nat nat
  | TooManyOps nat nat
  | ParseFailure string
  | InvalidAddress string
  | NoAddress
  | NoScriptPubKey
  | ExternalFailure string

definition bindE :: "error + 'a \<Rightarrow> ('a \<Rightarrow> error + 'b) \<Rightarrow> error + 'b" where
  "bindE m f = (case m of Inl e \<Rightarrow> Inl e | Inr x \<Rightarrow> f x)"

datatype Network = bitcoin | testnet | regtest

text \<open>
  A payment of the external payments library, with the fields this code reads or
  passes on (\<open>address\<close>, \<open>output\<close>, \<open>redeem\<close>); a field that is absent is \<open>None\<close>.
\<close>

datatype Payment =
  Payment (p_address: "string option") (p_output: "Buffer option") (p_redeem: "Payment option")

text \<open>An element of a decompiled script: an opcode number or pushed data.\<close>

datatype chunk = Opcode nat | PushData Buffer

definition MAX_SCRIPT_ELEMENT_SIZE :: nat where
  "MAX_SCRIPT_ELEMENT_SIZE = 520"

definition MAX_STANDARD_P2WSH_SCRIPT_SIZE :: nat where
  "MAX_STANDARD_P2WSH_SCRIPT_SIZE = 3600"

definition MAX_OPS_PER_SCRIPT :: nat where
  "MAX_OPS_PER_SCRIPT = 201"

text \<open>The opcode table entry \<open>OPS['OP_16']\<close> of the external script library.\<close>

definition OP_16 :: nat where
  "OP_16 = 0x60"

text \<open>
  What the code imports, as parameters. \<open>CHECKSUM_CHARSET\<close> and \<open>DescriptorChecksum\<close>
  (module \<open>./checksum\<close>) and \<open>numberEncodeAsm\<close> (module \<open>./numberEncodeAsm\<close>) belong to
  the repository; the other fields are the external libraries (curve provider, BIP32, ECPair,
  miniscript compiler and satisfier, script and address codecs, payments), each a pure
  function that returns \<open>None\<close> where the library throws. \<open>buffer_gt\<close> is the host's
  comparison \<open>buffer > number\<close>, which coerces the buffer; the model leaves it open.
  \<open>toString_large\<close> is the host's \<open>Number.prototype.toString\<close> on the integers of
  magnitude \<open>2^53\<close> and more, where it writes the shortest digits that read back as the
  same double and, from \<open>10^21\<close> on, exponent notation; the model leaves it open too.
  \<open>CHECKSUM_CHARSET\<close> is read as the list of characters of a character class (it holds
  no character that is special inside one).
\<close>

record 'node env =
  CHECKSUM_CHARSET :: string
  DescriptorChecksum :: "string \<Rightarrow> string"
  numberEncodeAsm :: "int \<Rightarrow> string option"
  isPoint :: "Buffer \<Rightarrow> bool"
  fromBase58 :: "string \<Rightarrow> Network \<Rightarrow> 'node option"
  node_derivePath :: "'node \<Rightarrow> string \<Rightarrow> 'node option"
  publicKey :: "'node \<Rightarrow> Buffer"
  fromWIF :: "string \<Rightarrow> Network \<Rightarrow> Buffer option"
  compileMiniscript :: "string \<Rightarrow> string \<times> bool"
  satisfier :: "string \<Rightarrow> string list \<Rightarrow> string list option"
  hash160 :: "Buffer \<Rightarrow> Buffer"
  fromASM :: "string \<Rightarrow> Buffer option"
  decompile :: "Buffer \<Rightarrow> chunk list option"
  buffer_gt :: "Buffer \<Rightarrow> nat \<Rightarrow> bool"
  toString_large :: "int \<Rightarrow> string"
  toOutputScript :: "string \<Rightarrow> Network \<Rightarrow> Buffer option"
  p2pk :: "Buffer \<Rightarrow> Network \<Rightarrow> Payment option"
  p2pkh :: "Buffer \<Rightarrow> Network \<Rightarrow> Payment option"
  p2wpkh :: "Buffer \<Rightarrow> Network \<Rightarrow> Payment option"
  p2sh :: "Payment \<Rightarrow> Network \<Rightarrow> Payment option"
  p2wsh :: "Payment \<Rightarrow> Network \<Rightarrow> Payment option"

text \<open>
  \<open>Number.prototype.toString\<close> on an integer. Below \<open>2^53\<close> in magnitude every integer is
  a double of its own and its text is its decimal digits, with a minus sign below zero;
  from there on the text is the host's.
\<close>

definition number_toString :: "'node env \<Rightarrow> int \<Rightarrow> string" where
  "number_toString env i =
     (if \<bar>i\<bar> < 2 ^ 53
      then (if i < 0 then CHR ''-'' # decimal (nat (- i)) else decimal (nat i))
      else toString_large env i)"

section \<open>The grammar\<close>

definition digit_chars :: string where
  "digit_chars = ''0123456789''"

definition base58_chars :: string where
  "base58_chars = ''123456789ABCDEFGHJKLMNPQRSTUVWXYZabcdefghijkmnopqrstuvwxyz''"

definition apostrophe :: char where
  "apostrophe = CHR 0x27"

definition reHardened :: regex where
  "reHardened = Cls [apostrophe, CHR ''h'', CHR ''H'']"

definition reLevel :: regex where
  "reLevel = Seq (Plus (Cls digit_chars)) (Opt reHardened)"

definition rePathComponent :: regex where
  "rePathComponent = Seq reLevel (Lit ''/'')"

definition reOriginPath :: regex where
  "reOriginPath = seqs [Lit ''/'', Star rePathComponent, reLevel]"

definition reOrigin :: regex where
  "reOrigin = seqs [Lit ''['', Rep 8 8 (Cls hex_chars), Opt reOriginPath, Lit '']'']"

definition reChecksum :: "string \<Rightarrow> regex" where
  "reChecksum charset = Seq (Lit ''#'') (Rep 8 8 (Cls charset))"

definition reCompressedPubKey :: regex where
  "reCompressedPubKey = Seq (Alt (Lit ''02'') (Lit ''03'')) (Rep 64 64 (Cls hex_chars))"

definition reUncompressedPubKey :: regex where
  "reUncompressedPubKey = Seq (Lit ''04'') (Rep 128 128 (Cls hex_chars))"

definition rePubKey :: regex where
  "rePubKey = Alt reCompressedPubKey reUncompressedPubKey"

definition reWIF :: regex where
  "reWIF = Seq (Cls ''5KLc9'') (Rep 50 51 (Cls base58_chars))"

definition reXpub :: regex where
  "reXpub = seqs [Cls ''xXtT'', Lit ''pub'', Rep 79 108 (Cls base58_chars)]"

definition reXprv :: regex where
  "reXprv = seqs [Cls ''xXtT'', Lit ''prv'', Rep 79 108 (Cls base58_chars)]"

definition reRangeLevel :: regex where
  "reRangeLevel = Seq (Lit ''*'') (Opt reHardened)"

definition rePath :: regex where
  "rePath = seqs [Lit ''/'', Star rePathComponent, Alt reRangeLevel reLevel]"

definition reXpubKey :: regex where
  "reXpubKey = Seq reXpub (Opt rePath)"

definition reXprvKey :: regex where
  "reXprvKey = Seq reXprv (Opt rePath)"

definition reActualKey :: regex where
  "reActualKey = alts [reXpubKey, reXprvKey, rePubKey, reWIF]"

definition reKeyExp :: regex where
  "reKeyExp = Seq (Opt reOrigin) reActualKey"

definition rePk :: regex where
  "rePk = seqs [Lit ''pk('', Group1 (LazyStar Dot), Lit '')'']"

definition reAddr :: regex where
  "reAddr = seqs [Lit ''addr('', Group1 (LazyStar Dot), Lit '')'']"

definition rePkh :: regex where
  "rePkh = seqs [Lit ''pkh('', reKeyExp, Lit '')'']"

definition reWpkh :: regex where
  "reWpkh = seqs [Lit ''wpkh('', reKeyExp, Lit '')'']"

definition reShWpkh :: regex where
  "reShWpkh = seqs [Lit ''sh(wpkh('', reKeyExp, Lit ''))'']"

definition reMiniscript :: regex where
  "reMiniscript = Group1 (LazyStar Dot)"

definition makeReSh :: "regex \<Rightarrow> regex" where
  "makeReSh re = seqs [Lit ''sh('', re, Lit '')'']"

definition makeReWsh :: "regex \<Rightarrow> regex" where
  "makeReWsh re = seqs [Lit ''wsh('', re, Lit '')'']"

definition makeReShWsh :: "regex \<Rightarrow> regex" where
  "makeReShWsh re = makeReSh (makeReWsh re)"

definition anchorStartAndEnd :: "regex \<Rightarrow> regex" where
  "anchorStartAndEnd re = seqs [Bol, re, Eol]"

definition composeChecksum :: "string \<Rightarrow> regex \<Rightarrow> regex" where
  "composeChecksum charset re = Seq re (Opt (reChecksum charset))"

definition rePkAnchored :: "string \<Rightarrow> regex" where
  "rePkAnchored charset = anchorStartAndEnd (composeChecksum charset rePk)"

definition reAddrAnchored :: "string \<Rightarrow> regex" where
  "reAddrAnchored charset = anchorStartAndEnd (composeChecksum charset reAddr)"

definition rePkhAnchored :: "string \<Rightarrow> regex" where
  "rePkhAnchored charset = anchorStartAndEnd (composeChecksum charset rePkh)"

definition reWpkhAnchored :: "string \<Rightarrow> regex" where
  "reWpkhAnchored charset = anchorStartAndEnd (composeChecksum charset reWpkh)"

definition reShWpkhAnchored :: "string \<Rightarrow> regex" where
  "reShWpkhAnchored charset = anchorStartAndEnd (composeChecksum charset reShWpkh)"

definition reShMiniscriptAnchored :: "string \<Rightarrow> regex" where
  "reShMiniscriptAnchored charset = anchorStartAndEnd (composeChecksum charset (makeReSh reMiniscript))"

definition reShWshMiniscriptAnchored :: "string \<Rightarrow> regex" where
  "reShWshMiniscriptAnchored charset =
     anchorStartAndEnd (composeChecksum charset (makeReShWsh reMiniscript))"

definition reWshMiniscriptAnchored :: "string \<Rightarrow> regex" where
  "reWshMiniscriptAnchored charset = anchorStartAndEnd (composeChecksum charset (makeReWsh reMiniscript))"

section \<open>The range isolator\<close>

text \<open>
  \<open>isolate\<close>: strips and verifies a trailing checksum, then puts the index in place of
  every wildcard. \<open>mWildcard\<close> is the list of the matches of \<open>/\*/g\<close>.
\<close>

definition isolate :: "'node env \<Rightarrow> string \<Rightarrow> bool \<Rightarrow> js_number \<Rightarrow> error + string" where
  "isolate env expr required idx =
     (let mChecksum = js_match expr (Seq (reChecksum (CHECKSUM_CHARSET env)) Eol) in
      if mChecksum = None \<and> required then Inl (MissingChecksum expr)
      else bindE
        (case mChecksum of
           None \<Rightarrow> Inr expr
         | Some m \<Rightarrow>
             (let checksum = drop 1 (m0 m);
                  isolatedExpression = take (length expr - length (m0 m)) expr in
              if checksum \<noteq> DescriptorChecksum env isolatedExpression
              then Inl (InvalidChecksum expr) else Inr isolatedExpression))
        (\<lambda>isolatedExpression.
           let mWildcard = filter (\<lambda>c. c = CHR ''*'') isolatedExpression in
           if length mWildcard > 0
           then (case idx of
                   NotInteger \<Rightarrow> Inl (InvalidIndex idx)
                 | Integer i \<Rightarrow>
                     if i < 0 then Inl (InvalidIndex idx)
                     else Inr (replaceAll ''*'' (number_toString env i) isolatedExpression))
           else Inr isolatedExpression))"

section \<open>The key expression resolver\<close>

definition path_element_overflows :: "string \<Rightarrow> bool" where
  "path_element_overflows element =
     (let unhardened = (if endsWith element [apostrophe] then butlast element else element) in
      case js_Number unhardened of None \<Rightarrow> True | Some v \<Rightarrow> v \<ge> 0x80000000)"

definition derivePath :: "'node env \<Rightarrow> 'node \<Rightarrow> string \<Rightarrow> error + 'node" where
  "derivePath env node path =
     (let parsedPath = drop 1 (replaceAll ''h'' [apostrophe] (replaceAll ''H'' [apostrophe] path));
          splitPath = split_on CHR ''/'' parsedPath in
      if list_ex path_element_overflows splitPath then Inl PathElementOverflow
      else (case node_derivePath env node parsedPath of
              None \<Rightarrow> Inl InvalidExtendedKey
            | Some child \<Rightarrow> Inr child))"

text \<open>
  The branch shared by extended public and private keys: the key and, when the key
  expression has one, the path are matched out of it, the key is decoded and the path
  derived.
\<close>

definition extendedKey2PubKey ::
  "'node env \<Rightarrow> regex \<Rightarrow> error \<Rightarrow> string \<Rightarrow> Network \<Rightarrow> error + Buffer" where
  "extendedKey2PubKey env reX notMatched xKey net =
     (case js_match xKey reX of
        None \<Rightarrow> Inl notMatched
      | Some mX \<Rightarrow>
          if m0 mX = [] then Inl notMatched
          else (case js_match xKey rePath of
                  Some mPath \<Rightarrow>
                    if m0 mPath = [] then Inl PathNotExtracted
                    else (case fromBase58 env (m0 mX) net of
                            None \<Rightarrow> Inl InvalidExtendedKey
                          | Some node \<Rightarrow>
                              bindE (derivePath env node (m0 mPath))
                                (\<lambda>child. Inr (publicKey env child)))
                | None \<Rightarrow>
                    (case fromBase58 env (m0 mX) net of
                       None \<Rightarrow> Inl InvalidExtendedKey
                     | Some node \<Rightarrow> Inr (publicKey env node))))"

definition keyExpression2PubKey ::
  "'node env \<Rightarrow> string \<Rightarrow> Network option \<Rightarrow> bool option \<Rightarrow> error + Buffer" where
  "keyExpression2PubKey env keyExpression net_opt isSegwit_opt =
     (let net = (case net_opt of None \<Rightarrow> bitcoin | Some n \<Rightarrow> n);
          isSegwit = (case isSegwit_opt of None \<Rightarrow> True | Some b \<Rightarrow> b);
          keyExpressions = js_match keyExpression reKeyExp in
      if (case keyExpressions of None \<Rightarrow> True | Some m \<Rightarrow> m0 m \<noteq> keyExpression)
      then Inl (BadKeyExpression keyExpression)
      else
        (let actualKey = js_replace_first keyExpression (Seq Bol (Opt reOrigin)) [] in
         case js_match actualKey (anchorStartAndEnd rePubKey) of
           Some mPubKey \<Rightarrow>
             (let pubkey = Buffer_from_hex (m0 mPubKey) in
              if \<not> isPoint env pubkey \<or> (isSegwit \<and> length pubkey \<noteq> 33)
                 \<or> \<not> (length pubkey = 33 \<or> length pubkey = 65)
              then Inl InvalidPubKey else Inr pubkey)
         | None \<Rightarrow>
         (case js_match actualKey (anchorStartAndEnd reWIF) of
           Some mWIF \<Rightarrow>
             (case fromWIF env (m0 mWIF) net of None \<Rightarrow> Inl InvalidWif | Some pk \<Rightarrow> Inr pk)
         | None \<Rightarrow>
         (case js_match actualKey (anchorStartAndEnd reXpubKey) of
           Some mXpubKey \<Rightarrow> extendedKey2PubKey env reXpub XpubNotMatched (m0 mXpubKey) net
         | None \<Rightarrow>
         (case js_match actualKey (anchorStartAndEnd reXprvKey) of
           Some mXprvKey \<Rightarrow> extendedKey2PubKey env reXprv XprvNotMatched (m0 mXprvKey) net
         | None \<Rightarrow> Inl (NoPubKeyForKeyExpression keyExpression))))))"

section \<open>The miniscript solver\<close>

definition chunk_gt :: "'node env \<Rightarrow> chunk \<Rightarrow> nat \<Rightarrow> bool" where
  "chunk_gt env op n = (case op of Opcode v \<Rightarrow> v > n | PushData b \<Rightarrow> buffer_gt env b n)"

definition countNonPushOnlyOPs :: "'node env \<Rightarrow> Buffer \<Rightarrow> error + nat" where
  "countNonPushOnlyOPs env script =
     (case decompile env script of
        None \<Rightarrow> Inl (CouldNotDecompile script)
      | Some chunks \<Rightarrow> Inr (length (filter (\<lambda>op. chunk_gt env op OP_16) chunks)))"

text \<open>
  \<open>keyMap\<close> is an object used as an ordered dictionary: its entries in insertion
  order. \<open>keyMap[key] = v\<close> overwrites an entry that is there and appends otherwise.
\<close>

type_synonym keyMap = "(string \<times> string) list"

definition keyMap_set :: "keyMap \<Rightarrow> string \<Rightarrow> string \<Rightarrow> keyMap" where
  "keyMap_set keyMap key v =
     (if key \<in> set (map fst keyMap)
      then map (\<lambda>(k, old). if k = key then (k, v) else (k, old)) keyMap
      else keyMap @ [(key, v)])"

text \<open>
  The replacer of \<open>miniscript.replace(RegExp(reKeyExp, 'g'), ...)\<close>, run over the matches
  from left to right: each key expression gets the next placeholder and is resolved;
  the first failure ends the scan. The accumulator is the text produced so far.
\<close>

fun replace_keys ::
  "'node env \<Rightarrow> Network \<Rightarrow> bool \<Rightarrow> (string \<times> string) list \<Rightarrow> string \<Rightarrow> keyMap
     \<Rightarrow> error + string \<times> keyMap" where
  "replace_keys env net isSegwit [] acc keyMap = Inr (acc, keyMap)"
| "replace_keys env net isSegwit ((skipped, keyExpression) # ms) acc keyMap =
     (let key = ''@'' @ decimal (length keyMap) in
      bindE (keyExpression2PubKey env keyExpression (Some net) (Some isSegwit))
        (\<lambda>pubkey. replace_keys env net isSegwit ms (acc @ skipped @ key)
                     (keyMap_set keyMap key (toString_hex pubkey))))"

text \<open>The two \<open>reduce\<close> loops over \<open>Object.keys(keyMap)\<close>.\<close>

fun substitute_asm :: "'node env \<Rightarrow> keyMap \<Rightarrow> string \<Rightarrow> error + string" where
  "substitute_asm env [] accAsm = Inr accAsm"
| "substitute_asm env ((key, pubKey) # keyMap) accAsm =
     (if pubKey = [] then Inl (InvalidKeyMap key)
      else substitute_asm env keyMap
             (replaceAll (''<HASH160('' @ key @ '')>'')
                (''<'' @ toString_hex (hash160 env (Buffer_from_hex pubKey)) @ ''>'')
                (replaceAll (''<'' @ key @ ''>'') (''<'' @ pubKey @ ''>'') accAsm)))"

fun substitute_satAsm :: "keyMap \<Rightarrow> string \<Rightarrow> error + string" where
  "substitute_satAsm [] accAsm = Inr accAsm"
| "substitute_satAsm ((key, pubKey) # keyMap) accAsm =
     (if pubKey = [] then Inl (InvalidKeyMap key)
      else substitute_satAsm keyMap
             (replaceAll (''<sig('' @ key @ '')>'') (''<sig('' @ pubKey @ '')>'')
                (replaceAll (''<'' @ key @ ''>'') (''<'' @ pubKey @ ''>'') accAsm)))"

text \<open>
  The replacer of the numeric literals: every match is encoded by \<open>numberEncodeAsm\<close>,
  and the first failure ends the scan. (A literal beyond \<open>2^53\<close> reaches
  \<open>numberEncodeAsm\<close> rounded to a double in the source; the model passes its exact value.)
\<close>

fun encode_numbers :: "'node env \<Rightarrow> (string \<times> string) list \<Rightarrow> string \<Rightarrow> error + string" where
  "encode_numbers env [] acc = Inr acc"
| "encode_numbers env ((skipped, num) # ms) acc =
     (case js_Number num of
        None \<Rightarrow> Inl (ExternalFailure ''numberEncodeAsm'')
      | Some n \<Rightarrow>
          (case numberEncodeAsm env n of
             None \<Rightarrow> Inl (ExternalFailure ''numberEncodeAsm'')
           | Some enc \<Rightarrow> encode_numbers env ms (acc @ skipped @ enc)))"

definition reNumber :: regex where
  "reNumber = seqs [NotBehind ''<'', WordBoundary, Plus (Cls digit_chars), WordBoundary, NotAhead ''>'']"

record solved =
  lockingScript :: Buffer
  satAsm :: string

definition solveMiniscript ::
  "'node env \<Rightarrow> string \<Rightarrow> bool option \<Rightarrow> string list option \<Rightarrow> Network option \<Rightarrow> error + solved" where
  "solveMiniscript env miniscript isSegwit_opt unknowns_opt net_opt =
     (let isSegwit = (case isSegwit_opt of None \<Rightarrow> True | Some b \<Rightarrow> b);
          unknowns = (case unknowns_opt of None \<Rightarrow> [] | Some u \<Rightarrow> u);
          net = (case net_opt of None \<Rightarrow> bitcoin | Some n \<Rightarrow> n) in
      case js_match_all miniscript reKeyExp of (ms, rest) \<Rightarrow>
      bindE (replace_keys env net isSegwit ms [] [])
        (\<lambda>(replaced, keyMap).
           let bareM = replaced @ rest;
               pubKeys = map snd keyMap in
           if length (remdups pubKeys) \<noteq> length pubKeys then Inl (DuplicateKey miniscript)
           else
             (let compiled = compileMiniscript env bareM in
              if \<not> snd compiled then Inl (UnsaneMiniscript bareM)
              else
                bindE (substitute_asm env keyMap (fst compiled))
                  (\<lambda>asm.
                     bindE
                       (case js_match_all (js_replace_all (trim asm) (Plus (Cls space_chars)) '' '')
                               reNumber of
                          (ns, tail) \<Rightarrow>
                            bindE (encode_numbers env ns [])
                              (\<lambda>encoded. Inr (js_replace_all (encoded @ tail) (Cls ''<>'') [])))
                       (\<lambda>parsedAsm.
                          case satisfier env bareM unknowns of
                            None \<Rightarrow> Inl (Unsatisfiable miniscript)
                          | Some [] \<Rightarrow> Inl (Unsatisfiable miniscript)
                          | Some (sat # _) \<Rightarrow>
                              bindE (substitute_satAsm keyMap sat)
                                (\<lambda>satAsm'.
                                   case fromASM env parsedAsm of
                                     None \<Rightarrow> Inl (ExternalFailure ''fromASM'')
                                   | Some script \<Rightarrow>
                                       Inr \<lparr>lockingScript = script, satAsm = satAsm'\<rparr>))))))"

section \<open>The descriptor\<close>

text \<open>The constructor's argument object; an optional field left out is \<open>None\<close>.\<close>

record params =
  expression :: string
  index :: js_number
  checksumRequired :: "bool option"
  allowMiniscriptInP2SH :: "bool option"
  unknowns :: "string list option"
  network :: "Network option"

text \<open>The private fields \<open>#payment\<close> and \<open>#satAsm\<close>.\<close>

record Descriptor =
  payment :: Payment
  d_satAsm :: "string option"

text \<open>A value interpolated into a template literal: an undefined one prints as such.\<close>

definition interpolate :: "string option \<Rightarrow> string" where
  "interpolate v = (case v of None \<Rightarrow> ''undefined'' | Some s \<Rightarrow> s)"

definition matches :: "string \<Rightarrow> regex \<Rightarrow> bool" where
  "matches s re = (js_match s re \<noteq> None)"

definition group1 :: "string \<Rightarrow> regex \<Rightarrow> string option" where
  "group1 s re = (case js_match s re of None \<Rightarrow> None | Some m \<Rightarrow> m1 m)"

definition external :: "string \<Rightarrow> 'a option \<Rightarrow> error + 'a" where
  "external name r = (case r of None \<Rightarrow> Inl (ExternalFailure name) | Some x \<Rightarrow> Inr x)"

text \<open>
  The branches for \<open>pk\<close>, \<open>pkh\<close>, \<open>sh(wpkh)\<close> and \<open>wpkh\<close>: the expression has to be the
  envelope around the key expression found in it, and the payment is made from the key.
\<close>

definition key_envelope ::
  "'node env \<Rightarrow> string \<Rightarrow> string \<Rightarrow> string option \<Rightarrow> string \<Rightarrow> string \<Rightarrow> Network
     \<Rightarrow> bool option \<Rightarrow> (Buffer \<Rightarrow> error + Payment) \<Rightarrow> error + Descriptor" where
  "key_envelope env expr isolatedExpression keyExpression opening closing net isSegwit_opt pay =
     (if isolatedExpression \<noteq> opening @ interpolate keyExpression @ closing
      then Inl (InvalidExpression expr)
      else (case keyExpression of
              None \<Rightarrow> Inl KeyExpressionNotExtracted
            | Some k \<Rightarrow>
                if k = [] then Inl KeyExpressionNotExtracted
                else bindE (keyExpression2PubKey env k (Some net) isSegwit_opt)
                       (\<lambda>pubkey. bindE (pay pubkey)
                          (\<lambda>p. Inr \<lparr>payment = p, d_satAsm = None\<rparr>))))"

text \<open>
  The part the three miniscript branches share once the miniscript is solved: the
  size limit, the limit on the operations that are not pushes, and the payment.
\<close>

definition miniscript_envelope ::
  "'node env \<Rightarrow> error + solved \<Rightarrow> nat \<Rightarrow> (Buffer \<Rightarrow> error + Payment) \<Rightarrow> error + Descriptor" where
  "miniscript_envelope env solving limit pay =
     bindE solving
       (\<lambda>s. let script = lockingScript s in
          if length script > limit then Inl (ScriptTooLarge (length script) limit)
          else bindE (countNonPushOnlyOPs env script)
                 (\<lambda>nonPushOnlyOps.
                    if nonPushOnlyOps > MAX_OPS_PER_SCRIPT
                    then Inl (TooManyOps nonPushOnlyOps MAX_OPS_PER_SCRIPT)
                    else bindE (pay script)
                           (\<lambda>p. Inr \<lparr>payment = p, d_satAsm = Some (satAsm s)\<rparr>)))"

definition reP2SHAllowed :: regex where
  "reP2SHAllowed = Seq Bol (alts [Lit ''pk('', Lit ''pkh('', Lit ''wpkh('', Lit ''combo('',
     Lit ''multi('', Lit ''sortedmulti('', Lit ''multi_a('', Lit ''sortedmulti_a(''])"

text \<open>
  The constructor after \<open>isolate\<close>: the dispatch on the envelope of the isolated
  expression, in the order of the source, and the payment of the matching branch.
  (The constructor also prints \<open>#satAsm\<close> to the console; output is not modelled.)
\<close>

definition realize :: "'node env \<Rightarrow> params \<Rightarrow> string \<Rightarrow> error + Descriptor" where
  "realize env a isolatedExpression =
     (let allowInP2SH = (case allowMiniscriptInP2SH a of None \<Rightarrow> False | Some b \<Rightarrow> b);
          net = (case network a of None \<Rightarrow> bitcoin | Some n \<Rightarrow> n);
          charset = CHECKSUM_CHARSET env;
          matchedAddress = group1 isolatedExpression (reAddrAnchored charset);
          keyExpression = map_option m0 (js_match isolatedExpression reKeyExp) in
      if matchedAddress \<noteq> None \<and> matchedAddress \<noteq> Some []
      then (case toOutputScript env (the matchedAddress) net of
              None \<Rightarrow> Inl (InvalidAddress (the matchedAddress))
            | Some _ \<Rightarrow>
                Inr \<lparr>payment = Payment matchedAddress None None, d_satAsm = None\<rparr>)
      else if matches isolatedExpression (rePkAnchored charset)
      then key_envelope env (expression a) isolatedExpression keyExpression ''pk('' '')'' net
             (Some False) (\<lambda>pubkey. external ''p2pk'' (p2pk env pubkey net))
      else if matches isolatedExpression (rePkhAnchored charset)
      then key_envelope env (expression a) isolatedExpression keyExpression ''pkh('' '')'' net
             (Some False) (\<lambda>pubkey. external ''p2pkh'' (p2pkh env pubkey net))
      else if matches isolatedExpression (reShWpkhAnchored charset)
      then key_envelope env (expression a) isolatedExpression keyExpression ''sh(wpkh('' ''))''
             net None
             (\<lambda>pubkey. bindE (external ''p2wpkh'' (p2wpkh env pubkey net))
                (\<lambda>inner. external ''p2sh'' (p2sh env inner net)))
      else if matches isolatedExpression (reWpkhAnchored charset)
      then key_envelope env (expression a) isolatedExpression keyExpression ''wpkh('' '')'' net
             None (\<lambda>pubkey. external ''p2wpkh'' (p2wpkh env pubkey net))
      else if matches isolatedExpression (reShWshMiniscriptAnchored charset)
      then (case group1 isolatedExpression (reShWshMiniscriptAnchored charset) of
              None \<Rightarrow> Inl (MiniscriptNotFound isolatedExpression)
            | Some miniscript \<Rightarrow>
                if miniscript = [] then Inl (MiniscriptNotFound isolatedExpression)
                else miniscript_envelope env
                       (solveMiniscript env miniscript None (unknowns a) (Some net))
                       MAX_STANDARD_P2WSH_SCRIPT_SIZE
                       (\<lambda>script.
                          bindE (external ''p2wsh'' (p2wsh env (Payment None (Some script) None) net))
                            (\<lambda>inner. external ''p2sh'' (p2sh env inner net))))
      else if matches isolatedExpression (reShMiniscriptAnchored charset)
      then (case group1 isolatedExpression (reShMiniscriptAnchored charset) of
              None \<Rightarrow> Inl (MiniscriptNotFound isolatedExpression)
            | Some miniscript \<Rightarrow>
                if miniscript = [] then Inl (MiniscriptNotFound isolatedExpression)
                else if allowInP2SH = False \<and> js_search miniscript reP2SHAllowed \<noteq> 0
                then Inl MiniscriptDisallowedInP2SH
                else miniscript_envelope env
                       (solveMiniscript env miniscript (Some False) (unknowns a) (Some net))
                       MAX_SCRIPT_ELEMENT_SIZE
                       (\<lambda>script.
                          external ''p2sh'' (p2sh env (Payment None (Some script) None) net)))
      else if matches isolatedExpression (reWshMiniscriptAnchored charset)
      then (case group1 isolatedExpression (reWshMiniscriptAnchored charset) of
              None \<Rightarrow> Inl (MiniscriptNotFound isolatedExpression)
            | Some miniscript \<Rightarrow>
                if miniscript = [] then Inl (MiniscriptNotFound isolatedExpression)
                else miniscript_envelope env
                       (solveMiniscript env miniscript None (unknowns a) (Some net))
                       MAX_STANDARD_P2WSH_SCRIPT_SIZE
                       (\<lambda>script.
                          external ''p2wsh'' (p2wsh env (Payment None (Some script) None) net)))
      else Inl (ParseFailure (expression a)))"

text \<open>\<open>new Descriptor({expression, index, checksumRequired, ...})\<close>\<close>

definition Descriptor_new :: "'node env \<Rightarrow> params \<Rightarrow> error + Descriptor" where
  "Descriptor_new env a =
     (let required = (case checksumRequired a of None \<Rightarrow> False | Some b \<Rightarrow> b) in
      bindE (isolate env (expression a) required (index a)) (realize env a))"

definition getPayment :: "Descriptor \<Rightarrow> Payment" where
  "getPayment d = payment d"

definition getAddress :: "Descriptor \<Rightarrow> error + string" where
  "getAddress d =
     (case p_address (payment d) of
        None \<Rightarrow> Inl NoAddress
      | Some addr \<Rightarrow> if addr = [] then Inl NoAddress else Inr addr)"

definition getScriptPubKey :: "Descriptor \<Rightarrow> error + Buffer" where
  "getScriptPubKey d =
     (case p_output (payment d) of None \<Rightarrow> Inl NoScriptPubKey | Some script \<Rightarrow> Inr script)"

definition Descriptor_checksum :: "'node env \<Rightarrow> string \<Rightarrow> string" where
  "Descriptor_checksum env expr = DescriptorChecksum env expr"

definition Descriptor_keyExpression2PubKey ::
  "'node env \<Rightarrow> string \<Rightarrow> Network option \<Rightarrow> bool option \<Rightarrow> error + Buffer" where
  "Descriptor_keyExpression2PubKey env keyExpression net_opt isSegwit_opt =
     (let net = (case net_opt of None \<Rightarrow> bitcoin | Some n \<Rightarrow> n);
          isSegwit = (case isSegwit_opt of None \<Rightarrow> True | Some b \<Rightarrow> b) in
      keyExpression2PubKey env keyExpression (Some net) (Some isSegwit))"

section \<open>Notions used in the statements and proofs\<close>

text \<open>The checksum token at the end of an expression, as \<open>isolate\<close> finds it.\<close>

definition checksum_token :: "'node env \<Rightarrow> string \<Rightarrow> match_result option" where
  "checksum_token env expr = js_match expr (Seq (reChecksum (CHECKSUM_CHARSET env)) Eol)"

text \<open>An expression without its checksum token.\<close>

definition without_checksum :: "'node env \<Rightarrow> string \<Rightarrow> string" where
  "without_checksum env expr =
     (case checksum_token env expr of
        None \<Rightarrow> expr
      | Some m \<Rightarrow> take (length expr - length (m0 m)) expr)"

text \<open>
  The second half of \<open>isolate\<close> on its own: the index put in place of the wildcards of
  an expression whose checksum is already gone.
\<close>

definition wildcards :: "'node env \<Rightarrow> string \<Rightarrow> js_number \<Rightarrow> error + string" where
  "wildcards env e idx =
     (if CHR ''*'' \<in> set e
      then (case idx of
              NotInteger \<Rightarrow> Inl (InvalidIndex idx)
            | Integer i \<Rightarrow>
                if i < 0 then Inl (InvalidIndex idx)
                else Inr (replaceAll ''*'' (number_toString env i) e))
      else Inr e)"

text \<open>
  The contract of the checksum module at an expression: eight symbols of the checksum
  character set.
\<close>

definition checksum_wellformed :: "'node env \<Rightarrow> string \<Rightarrow> bool" where
  "checksum_wellformed env e =
     (length (Descriptor_checksum env e) = 8
      \<and> list_all (\<lambda>c. c \<in> set (CHECKSUM_CHARSET env)) (Descriptor_checksum env e))"

text \<open>The key expressions of a miniscript, as the solver's scan finds them.\<close>

definition key_expressions :: "string \<Rightarrow> string list" where
  "key_expressions miniscript = map snd (fst (js_match_all miniscript reKeyExp))"

text \<open>A result that is not the error \<open>InvalidIndex\<close>.\<close>

definition no_index_error :: "error + 'a \<Rightarrow> bool" where
  "no_index_error r = (\<forall>x. r \<noteq> Inl (InvalidIndex x))"

text \<open>A string that passes the validation at the head of the resolver.\<close>

definition is_key_expression :: "string \<Rightarrow> bool" where
  "is_key_expression k = (case js_match k reKeyExp of None \<Rightarrow> False | Some m \<Rightarrow> m0 m = k)"

text \<open>The resolver's \<open>actualKey\<close>: the key expression without its origin.\<close>

definition actual_key :: "string \<Rightarrow> string" where
  "actual_key k = js_replace_first k (Seq Bol (Opt reOrigin)) []"

definition is_hex :: "string \<Rightarrow> bool" where
  "is_hex s = list_all (\<lambda>c. c \<in> set hex_chars) s"

text \<open>The text of a raw public key: 33 bytes (compressed) or 65 bytes (uncompressed).\<close>

definition is_compressed_pubkey :: "string \<Rightarrow> bool" where
  "is_compressed_pubkey k =
     ((take 2 k = ''02'' \<or> take 2 k = ''03'') \<and> length k = 66 \<and> is_hex (drop 2 k))"

definition is_uncompressed_pubkey :: "string \<Rightarrow> bool" where
  "is_uncompressed_pubkey k = (take 2 k = ''04'' \<and> length k = 130 \<and> is_hex (drop 2 k))"





definition digits_value :: "string \<Rightarrow> int" where
  "digits_value d = foldl (\<lambda>acc c. 10 * acc + digit_value c) 0 d"

text \<open>A key expression that the resolver resolves, in a given network and context.\<close>

definition resolves :: "'node env \<Rightarrow> Network \<Rightarrow> bool \<Rightarrow> string \<Rightarrow> bool" where
  "resolves env net isSegwit k =
     (case keyExpression2PubKey env k (Some net) (Some isSegwit) of Inl _ \<Rightarrow> False | Inr _ \<Rightarrow> True)"

text \<open>The placeholder of the key expression number \<open>i\<close>.\<close>

definition placeholder :: "nat \<Rightarrow> string" where
  "placeholder i = ''@'' @ decimal i"

text \<open>The opcodes of a decompiled script whose value is above \<open>OP_16\<close>.\<close>

definition non_push_opcodes :: "chunk list \<Rightarrow> chunk list" where
  "non_push_opcodes chunks =
     filter (\<lambda>op. case op of Opcode v \<Rightarrow> v > OP_16 | PushData _ \<Rightarrow> False) chunks"

text \<open>The resource limits on a script: its size, and the number of those opcodes.\<close>

definition limits_hold :: "'node env \<Rightarrow> Buffer \<Rightarrow> nat \<Rightarrow> bool" where
  "limits_hold env script limit =
     (length script \<le> limit
      \<and> (case decompile env script of
            None \<Rightarrow> False
          | Some chunks \<Rightarrow> length (non_push_opcodes chunks) \<le> MAX_OPS_PER_SCRIPT))"

section \<open>An instance of the services for the examples\<close>

text \<open>
  A small instance of the imported services, for the concrete examples below. It knows
  the generator point of the curve as the only public key, one address, one extended
  key (a BIP32 node is the pair of its key text and the path derived from it, and every
  node answers with the generator point), the miniscript \<open>pk(@0)\<close>, and the checksums
  of the expressions of the examples. It encodes no numeric literal, decodes no WIF and
  writes no integer from \<open>2^53\<close> on (the examples hold none).
  Script hashes are not computed: \<open>p2sh\<close> and \<open>p2wsh\<close> return a payment that only
  carries its redeem payment.
\<close>

definition G_compressed :: string where
  "G_compressed = ''0279be667ef9dcbbac55a06295ce870b07029bfcdb2dce28d959f2815b16f81798''"

definition G_uncompressed :: string where
  "G_uncompressed = ''0479be667ef9dcbbac55a06295ce870b07029bfcdb2dce28d959f2815b16f81798''
     @ ''483ada7726a3c4655da4fbfc0e1108a8fd17b448a68554199c47d08ffb10d4b8''"

definition example_address :: string where
  "example_address = ''bc1qw508d6qejxtdg4y5r3zarvary0c5xw7kv8f3t4''"

definition example_xpub :: string where
  "example_xpub = ''xpub6DJ2dNUysrn5Vt36jH2KLBT2i1auw1tTSSomg8PhqNiUtx8QX2SvC9nrHu81fT41fvDUnhMjEzQgXnQjKEu3oaqMSzhSrHMxyyoEAmUHQbY''"

definition example_range :: string where
  "example_range = ''wpkh([d34db33f/84h/0h/0h]'' @ example_xpub @ ''/0/*)''"

definition example_range_7 :: string where
  "example_range_7 = ''wpkh([d34db33f/84h/0h/0h]'' @ example_xpub @ ''/0/7)''"

definition example_checksum :: "string \<Rightarrow> string" where
  "example_checksum e =
     (if e = ''addr('' @ example_address @ '')'' then ''uyjndxcw''
      else if e = ''pk('' @ G_compressed @ '')'' then ''gn28ywm7''
      else if e = ''wpkh('' @ G_compressed @ '')'' then ''ucxz0gak''
      else if e = example_range then ''cjjspncu''
      else if e = example_range_7 then ''hvxwwlq2''
      else [])"

definition example_env :: "(string \<times> string) env" where
  "example_env =
     \<lparr>CHECKSUM_CHARSET = ''qpzry9x8gf2tvdw0s3jn54khce6mua7l'',
      DescriptorChecksum = example_checksum,
      numberEncodeAsm = (\<lambda>n. None),
      isPoint = (\<lambda>b. b = Buffer_from_hex G_compressed \<or> b = Buffer_from_hex G_uncompressed),
      fromBase58 = (\<lambda>s net. if s = example_xpub \<and> net = bitcoin then Some (s, []) else None),
      node_derivePath = (\<lambda>node path. Some (fst node, snd node @ ''/'' @ path)),
      publicKey = (\<lambda>node. Buffer_from_hex G_compressed),
      fromWIF = (\<lambda>wif net. None),
      compileMiniscript = (\<lambda>m. if m = ''pk(@0)'' then (''<@0> OP_CHECKSIG'', True) else ([], False)),
      satisfier = (\<lambda>m unknowns. if m = ''pk(@0)'' then Some [''<sig(@0)>''] else Some []),
      hash160 = (\<lambda>b. Buffer_from_hex ''751e76e8199196d454941c45d1b3a323f1433bd6''),
      fromASM = (\<lambda>asm. if asm = G_compressed @ '' OP_CHECKSIG''
                        then Some (0x21 # Buffer_from_hex G_compressed @ [0xac]) else None),
      decompile = (\<lambda>script. if script = 0x21 # Buffer_from_hex G_compressed @ [0xac]
                        then Some [PushData (Buffer_from_hex G_compressed), Opcode 0xac] else None),
      buffer_gt = (\<lambda>b n. False),
      toString_large = (\<lambda>i. []),
      toOutputScript = (\<lambda>addr net. if addr = example_address \<and> net = bitcoin
                        then Some (Buffer_from_hex ''0014751e76e8199196d454941c45d1b3a323f1433bd6'')
                        else None),
      p2pk = (\<lambda>pubkey net. Some (Payment None (Some (of_nat (length pubkey) # pubkey @ [0xac])) None)),
      p2pkh = (\<lambda>pubkey net. if pubkey = Buffer_from_hex G_compressed \<and> net = bitcoin
                 then Some (Payment (Some ''1BgGZ9tcN4rm9KBzDn7KprQz87SZ26SAMH'')
                        (Some (Buffer_from_hex ''76a914751e76e8199196d454941c45d1b3a323f1433bd688ac'')) None)
                 else None),
      p2wpkh = (\<lambda>pubkey net. if pubkey = Buffer_from_hex G_compressed \<and> net = bitcoin
                 then Some (Payment (Some example_address)
                        (Some (Buffer_from_hex ''0014751e76e8199196d454941c45d1b3a323f1433bd6'')) None)
                 else None),
      p2sh = (\<lambda>inner net. Some (Payment None None (Some inner))),
      p2wsh = (\<lambda>inner net. Some (Payment None None (Some inner)))\<rparr>"

definition example_params :: "string \<Rightarrow> params" where
  "example_params e =
     \<lparr>expression = e, index = NotInteger, checksumRequired = None,
      allowMiniscriptInP2SH = None, unknowns = None, network = None\<rparr>"

definition example_addr :: string where
  "example_addr = ''addr('' @ example_address @ '')''"

definition example_addr_descriptor :: Descriptor where
  "example_addr_descriptor = \<lparr>payment = Payment (Some example_address) None None, d_satAsm = None\<rparr>"

definition example_wpkh_descriptor :: Descriptor where
  "example_wpkh_descriptor =
     \<lparr>payment = Payment (Some example_address)
        (Some (Buffer_from_hex ''0014751e76e8199196d454941c45d1b3a323f1433bd6'')) None,
      d_satAsm = None\<rparr>"

definition example_key_expression :: string where
  "example_key_expression = ''[d34db33f/44h/0H/0'' @ [apostrophe] @ '']'' @ G_uncompressed"

definition example_duplicate_miniscript :: string where
  "example_duplicate_miniscript =
     ''or_b(pk('' @ G_compressed @ ''),s:pk([d34db33f]'' @ G_compressed @ ''))''"

definition example_unresolved_miniscript :: string where
  "example_unresolved_miniscript =
     ''thresh(2,pk('' @ G_compressed @ ''),s:pk([d34db33f]'' @ G_compressed
       @ ''),s:pk('' @ G_uncompressed @ ''))''"

definition example_wsh :: string where
  "example_wsh = ''wsh(pk('' @ G_compressed @ ''))''"

definition example_script :: Buffer where
  "example_script = 0x21 # Buffer_from_hex G_compressed @ [0xac]"

definition example_satAsm :: string where
  "example_satAsm = ''<sig('' @ G_compressed @ '')>''"

definition example_wsh_descriptor :: Descriptor where
  "example_wsh_descriptor =
     \<lparr>payment = Payment None None (Some (Payment None (Some example_script) None)),
      d_satAsm = Some example_satAsm\<rparr>"

text \<open>
  The example services with a script decoder for scripts made of one-byte opcodes, and
  a script of 202 signature checks.
\<close>

definition opcode_env :: "(string \<times> string) env" where
  "opcode_env = example_env\<lparr>decompile := (\<lambda>script. Some (map (\<lambda>b. Opcode (unat b)) script))\<rparr>"

definition example_long_script :: solved where
  "example_long_script = \<lparr>lockingScript = replicate 202 0xac, satAsm = []\<rparr>"

section \<open>The checksum token and the two stages of the isolator\<close>

lemma rep_exact_Cls:
  "rep_exact (rmatch (Cls cs)) n (g, b, a) =
     (if n \<le> length a \<and> set (take n a) \<subseteq> set cs then [(g, rev (take n a) @ b, drop n a)] else [])"
proof (induction n arbitrary: b a)
  case 0
  then show ?case by simp
next
  case (Suc n)
  show ?case
  proof (cases a)
    case Nil
    then show ?thesis by simp
  next
    case (Cons c a')
    then show ?thesis using Suc.IH [of "c # b" a'] by simp
  qed
qed

lemma rmatch_checksum_eol:
  "rmatch (Seq (reChecksum cs) Eol) (g, b, a) =
     (if length a = 9 \<and> hd a = CHR ''#'' \<and> set (tl a) \<subseteq> set cs then [(g, rev a @ b, [])] else [])"
proof (cases a)
  case Nil
  then show ?thesis by (simp add: reChecksum_def)
next
  case (Cons c a')
  then show ?thesis
    by (auto simp: reChecksum_def rep_exact_Cls)
qed

lemma search_from_checksum:
  assumes "length t = 8" "set t \<subseteq> set cs"
  shows "search_from (Seq (reChecksum cs) Eol) bef (e @ CHR ''#'' # t) =
           Some \<lparr>m_index = length bef + length e, m0 = CHR ''#'' # t, m1 = None\<rparr>"
proof (induction e arbitrary: bef)
  case Nil
  have "rmatch (Seq (reChecksum cs) Eol) (None, bef, CHR ''#'' # t) =
          [(None, rev (CHR ''#'' # t) @ bef, [])]"
    using assms unfolding rmatch_checksum_eol by simp
  then show ?case by (simp add: remaining_def del: rmatch.simps)
next
  case (Cons c e)
  have "rmatch (Seq (reChecksum cs) Eol) (None, bef, (c # e) @ CHR ''#'' # t) = []"
    using assms unfolding rmatch_checksum_eol by simp
  then show ?case using Cons.IH [of "c # bef"] by (simp del: rmatch.simps)
qed

lemma checksum_token_appended:
  assumes "length t = 8" "set t \<subseteq> set (CHECKSUM_CHARSET env)"
  shows "checksum_token env (e @ CHR ''#'' # t) =
           Some \<lparr>m_index = length e, m0 = CHR ''#'' # t, m1 = None\<rparr>"
  using search_from_checksum [OF assms, of "[]" e]
  by (simp add: checksum_token_def js_match_def)

lemma filter_star_empty: "(filter (\<lambda>c. c = CHR ''*'') e = []) = (CHR ''*'' \<notin> set e)"
  by (induction e) auto

lemma isolate_unfold:
  "isolate env expr required idx =
     (case checksum_token env expr of
        None \<Rightarrow> if required then Inl (MissingChecksum expr) else wildcards env expr idx
      | Some m \<Rightarrow>
          if drop 1 (m0 m) \<noteq> DescriptorChecksum env (take (length expr - length (m0 m)) expr)
          then Inl (InvalidChecksum expr)
          else wildcards env (take (length expr - length (m0 m)) expr) idx)"
  by (simp add: isolate_def checksum_token_def wildcards_def Let_def bindE_def filter_star_empty
        split: option.splits js_number.splits)

lemma isolate_appended:
  assumes "length t = 8" "set t \<subseteq> set (CHECKSUM_CHARSET env)"
  shows "isolate env (e @ CHR ''#'' # t) required idx =
           (if t \<noteq> DescriptorChecksum env e then Inl (InvalidChecksum (e @ CHR ''#'' # t))
            else wildcards env e idx)"
  by (simp add: isolate_unfold checksum_token_appended [OF assms])

lemma isolate_bare:
  "checksum_token env e = None \<Longrightarrow> isolate env e False idx = wildcards env e idx"
  by (simp add: isolate_unfold)

lemma key_envelope_success:
  "(key_envelope env x ie k opening closing n s pay = Inr d) =
   (key_envelope env y ie k opening closing n s pay = Inr d)"
  by (simp add: key_envelope_def)

lemma realize_success:
  assumes "allowMiniscriptInP2SH a = allowMiniscriptInP2SH a'" "unknowns a = unknowns a'"
    "network a = network a'"
  shows "(realize env a ie = Inr d) = (realize env a' ie = Inr d)"
  unfolding realize_def Let_def assms
  by (simp add: key_envelope_success [of env "expression a" _ _ _ _ _ _ _ d "expression a'"])


lemma digit_char_not_star: "digit_char d \<noteq> CHR ''*''"
proof -
  have "d mod 10 < length ''0123456789''" by simp
  then have "''0123456789'' ! (d mod 10) \<in> set ''0123456789''" by (rule nth_mem)
  then show ?thesis unfolding digit_char_def by auto
qed

lemma decimal_no_star: "CHR ''*'' \<notin> set (decimal n)"
proof (induction n rule: decimal.induct)
  case (1 n)
  show ?case
  proof (cases "n < 10")
    case True
    then show ?thesis using digit_char_not_star [of n] by (subst decimal.simps) auto
  next
    case False
    then show ?thesis using 1 digit_char_not_star [of n] by (subst decimal.simps) auto
  qed
qed

lemma number_toString_safe:
  "0 \<le> i \<Longrightarrow> i < 2 ^ 53 \<Longrightarrow> number_toString env i = decimal (nat i)"
  by (simp add: number_toString_def)

lemma replaceAll_char_set: "set (replaceAll [x] r s) \<subseteq> (set s - {x}) \<union> set r"
  by (induction s) (auto simp: startsWith_def)

lemma replaceAll_star_no_star:
  "CHR ''*'' \<notin> set r \<Longrightarrow> CHR ''*'' \<notin> set (replaceAll ''*'' r s)"
  using replaceAll_char_set [of "CHR ''*''" r s] by auto

lemma wildcards_substituted:
  "wildcards env (replaceAll ''*'' (decimal n) B) j = Inr (replaceAll ''*'' (decimal n) B)"
  by (simp add: wildcards_def replaceAll_star_no_star decimal_no_star)

lemma wildcards_range:
  "CHR ''*'' \<in> set B \<Longrightarrow> 0 \<le> i \<Longrightarrow> i < 2 ^ 53 \<Longrightarrow>
     wildcards env B (Integer i) = Inr (replaceAll ''*'' (decimal (nat i)) B)"
  by (simp add: wildcards_def number_toString_safe)

lemma Descriptor_new_success:
  assumes "isolate env (expression a) (case checksumRequired a of None \<Rightarrow> False | Some b \<Rightarrow> b) (index a)
             = isolate env (expression a') (case checksumRequired a' of None \<Rightarrow> False | Some b \<Rightarrow> b) (index a')"
    and "allowMiniscriptInP2SH a = allowMiniscriptInP2SH a'" "unknowns a = unknowns a'"
    and "network a = network a'"
  shows "(Descriptor_new env a = Inr d) = (Descriptor_new env a' = Inr d)"
  using realize_success [OF assms(2-4), of env _ d]
  by (simp add: Descriptor_new_def Let_def assms(1) bindE_def split: sum.splits)

section \<open>Checksum round trip\<close>

declare Descriptor_checksum_def [simp]

text \<open>
  Claim C2. Let \<open>e\<close> be a bare expression (it ends in no checksum token) from which a
  descriptor \<open>d\<close> is constructed, and let the checksum of \<open>e\<close> be eight symbols of the
  checksum character set. Then constructing from \<open>e # checksum e\<close> succeeds, whether or
  not a checksum is required, and gives the same descriptor \<open>d\<close>: the same payment and
  the same satisfaction assembly.
\<close>

theorem checksum_roundtrip:
  assumes "checksum_token env e = None"
    and "checksum_wellformed env e"
    and "Descriptor_new env (a\<lparr>expression := e, checksumRequired := None\<rparr>) = Inr d"
  shows "Descriptor_new env
           (a\<lparr>expression := e @ ''#'' @ Descriptor_checksum env e, checksumRequired := r\<rparr>) = Inr d"
proof -
  have t: "length (Descriptor_checksum env e) = 8"
      "set (Descriptor_checksum env e) \<subseteq> set (CHECKSUM_CHARSET env)"
    using assms(2) by (auto simp: checksum_wellformed_def list_all_iff)
  have "isolate env (e @ ''#'' @ Descriptor_checksum env e) q (index a) = isolate env e False (index a)" for q
    using isolate_appended [OF t, of e q "index a"] isolate_bare [OF assms(1)] by simp
  then show ?thesis
    using assms(3)
      Descriptor_new_success [of env "a\<lparr>expression := e @ ''#'' @ Descriptor_checksum env e, checksumRequired := r\<rparr>"
        "a\<lparr>expression := e, checksumRequired := None\<rparr>" d]
    by simp
qed

text \<open>The round trip at the address descriptor of the examples.\<close>

theorem checksum_roundtrip_witness:
  "checksum_token example_env example_addr = None
   \<and> checksum_wellformed example_env example_addr
   \<and> Descriptor_new example_env (example_params example_addr) = Inr example_addr_descriptor
   \<and> Descriptor_new example_env
        ((example_params (example_addr @ ''#'' @ Descriptor_checksum example_env example_addr))
           \<lparr>checksumRequired := Some True\<rparr>) = Inr example_addr_descriptor"
proof -
  have h1: "checksum_token example_env example_addr = None" by code_simp
  have h2: "checksum_wellformed example_env example_addr" by code_simp
  have h3: "Descriptor_new example_env
      ((example_params example_addr)\<lparr>expression := example_addr, checksumRequired := None\<rparr>)
      = Inr example_addr_descriptor" by code_simp
  show ?thesis
    using h1 h2 h3 checksum_roundtrip [OF h1 h2 h3, of "Some True"]
    by (simp add: example_params_def)
qed

section \<open>A corrupted checksum\<close>

text \<open>
  Claim C3, as amended. Let the checksum of \<open>e\<close> be eight symbols of the checksum
  character set. Replacing one of the eight symbols by a different symbol of the checksum
  character set makes construction fail with \<open>InvalidChecksum\<close>. (A replacement from
  outside the character set is not covered: the text then ends in no checksum token.)
\<close>

theorem corrupted_checksum_symbol:
  assumes "checksum_wellformed env e" and "k < 8"
    and "c \<in> set (CHECKSUM_CHARSET env)" and "c \<noteq> Descriptor_checksum env e ! k"
  shows "Descriptor_new env (a\<lparr>expression := e @ ''#'' @ (Descriptor_checksum env e)[k := c]\<rparr>)
           = Inl (InvalidChecksum (e @ ''#'' @ (Descriptor_checksum env e)[k := c]))"
proof -
  let ?t = "(Descriptor_checksum env e)[k := c]"
  have len: "length (Descriptor_checksum env e) = 8"
    and sub: "set (Descriptor_checksum env e) \<subseteq> set (CHECKSUM_CHARSET env)"
    using assms(1) by (auto simp: checksum_wellformed_def list_all_iff)
  have t: "length ?t = 8" "set ?t \<subseteq> set (CHECKSUM_CHARSET env)"
    using len sub assms(3) set_update_subset_insert [of "Descriptor_checksum env e" k c] by auto
  have "?t ! k = c" using len assms(2) by simp
  then have ne: "?t \<noteq> Descriptor_checksum env e" using assms(4) by metis
  show ?thesis
    using isolate_appended [OF t, of e] ne
    by (simp add: Descriptor_new_def Let_def bindE_def)
qed

text \<open>The last symbol of the checksum of the address descriptor replaced by \<open>q\<close>.\<close>

theorem corrupted_checksum_symbol_witness:
  "checksum_wellformed example_env example_addr
   \<and> CHR ''q'' \<in> set (CHECKSUM_CHARSET example_env)
   \<and> CHR ''q'' \<noteq> Descriptor_checksum example_env example_addr ! 7
   \<and> Descriptor_new example_env
        (example_params (example_addr @ ''#'' @ (Descriptor_checksum example_env example_addr)[7 := CHR ''q'']))
      = Inl (InvalidChecksum (example_addr @ ''#uyjndxcq''))"
proof -
  have h1: "checksum_wellformed example_env example_addr" by code_simp
  have h2: "(7::nat) < 8" by simp
  have h3: "CHR ''q'' \<in> set (CHECKSUM_CHARSET example_env)" by code_simp
  have h4: "CHR ''q'' \<noteq> Descriptor_checksum example_env example_addr ! 7" by code_simp
  have h5: "(DescriptorChecksum example_env example_addr)[7 := CHR ''q''] = ''uyjndxcq''" by code_simp
  show ?thesis
    using h1 h3 h4 corrupted_checksum_symbol [OF h1 h2 h3 h4, of "example_params example_addr"]
    by (simp add: example_params_def h5)
qed

text \<open>
  Claim C3 as stated fails: with the last symbol replaced by \<open>!\<close>, which is not in the
  checksum character set, the text ends in no checksum token, nothing is verified, and
  construction fails because no envelope matches.
\<close>

theorem corrupted_checksum_symbol_counterexample:
  "Descriptor_new example_env
     (example_params (example_addr @ ''#'' @ (Descriptor_checksum example_env example_addr)[7 := CHR ''!'']))
   = Inl (ParseFailure (example_addr @ ''#uyjndxc!''))"
  by code_simp

section \<open>Range descriptors\<close>

text \<open>
  Claim C4, as amended. Let \<open>B\<close> be a bare range expression (it holds a wildcard and
  ends in no checksum token), \<open>i\<close> an index with \<open>0 \<le> i < 2^53\<close>, and let \<open>S\<close>, which is
  \<open>B\<close> with every wildcard replaced by the decimal digits of \<open>i\<close>, end in no checksum
  token either. Let \<open>checksumRequired\<close> not be true in the construction from \<open>B\<close> nor
  in the one from \<open>S\<close>. Then constructing from \<open>B\<close> with index \<open>i\<close> gives a descriptor
  exactly when constructing from \<open>S\<close> does, and the same one, whatever index the latter
  is given. For the range descriptor with its checksum, \<open>B # checksum B\<close>, the same holds
  whether or not a checksum is required of it, with the substitution made in \<open>B\<close>,
  after the checksum is removed.
\<close>

theorem range_substitution:
  assumes "CHR ''*'' \<in> set B" and "0 \<le> i" and "i < 2 ^ 53"
    and "checksum_token env B = None"
    and "checksum_token env (replaceAll ''*'' (decimal (nat i)) B) = None"
    and "r \<noteq> Some True" and "r' \<noteq> Some True"
  shows "((Descriptor_new env (a\<lparr>expression := B, index := Integer i, checksumRequired := r\<rparr>) = Inr d)
          = (Descriptor_new env (a\<lparr>expression := replaceAll ''*'' (decimal (nat i)) B,
               index := j, checksumRequired := r'\<rparr>) = Inr d))
       \<and> (checksum_wellformed env B \<longrightarrow>
           (Descriptor_new env (a\<lparr>expression := B @ ''#'' @ Descriptor_checksum env B,
               index := Integer i, checksumRequired := q\<rparr>) = Inr d)
          = (Descriptor_new env (a\<lparr>expression := replaceAll ''*'' (decimal (nat i)) B,
               index := j, checksumRequired := r'\<rparr>) = Inr d))"
proof -
  let ?S = "replaceAll ''*'' (decimal (nat i)) B"
  have rf: "(case r of None \<Rightarrow> False | Some b \<Rightarrow> b) = False"
       "(case r' of None \<Rightarrow> False | Some b \<Rightarrow> b) = False"
    using assms(6,7) by (auto split: option.splits)
  have right: "isolate env ?S False j = Inr ?S"
    using isolate_bare [OF assms(5)] wildcards_substituted [of env "nat i" B j] by simp
  have left: "isolate env B False (Integer i) = Inr ?S"
    using isolate_bare [OF assms(4)] wildcards_range [OF assms(1,2,3)] by simp
  have one: "(Descriptor_new env (a\<lparr>expression := B, index := Integer i, checksumRequired := r\<rparr>) = Inr d)
          = (Descriptor_new env (a\<lparr>expression := ?S, index := j, checksumRequired := r'\<rparr>) = Inr d)"
    by (rule Descriptor_new_success) (simp_all add: rf left right)
  have two: "(Descriptor_new env (a\<lparr>expression := B @ ''#'' @ Descriptor_checksum env B,
               index := Integer i, checksumRequired := q\<rparr>) = Inr d)
          = (Descriptor_new env (a\<lparr>expression := ?S, index := j, checksumRequired := r'\<rparr>) = Inr d)"
    if wf: "checksum_wellformed env B"
  proof -
    have t: "length (Descriptor_checksum env B) = 8"
        "set (Descriptor_checksum env B) \<subseteq> set (CHECKSUM_CHARSET env)"
      using wf by (auto simp: checksum_wellformed_def list_all_iff)
    have "isolate env (B @ ''#'' @ Descriptor_checksum env B) x (Integer i) = Inr ?S" for x
      using isolate_appended [OF t, of B x "Integer i"] wildcards_range [OF assms(1,2,3)] by simp
    then show ?thesis
      by (intro Descriptor_new_success) (simp_all add: rf right)
  qed
  show ?thesis using one two by blast
qed

text \<open>The range descriptor of the examples at index 7, bare and with its checksum.\<close>

theorem range_substitution_witness:
  "CHR ''*'' \<in> set example_range
   \<and> checksum_token example_env example_range = None
   \<and> checksum_token example_env (replaceAll ''*'' (decimal 7) example_range) = None
   \<and> checksum_wellformed example_env example_range
   \<and> Descriptor_new example_env ((example_params example_range)\<lparr>index := Integer 7\<rparr>)
        = Inr example_wpkh_descriptor
   \<and> Descriptor_new example_env
        ((example_params (example_range @ ''#'' @ Descriptor_checksum example_env example_range))
           \<lparr>index := Integer 7, checksumRequired := Some True\<rparr>)
        = Inr example_wpkh_descriptor
   \<and> Descriptor_new example_env
        (example_params (replaceAll ''*'' (decimal 7) example_range))
        = Inr example_wpkh_descriptor"
proof -
  have h1: "CHR ''*'' \<in> set example_range" by code_simp
  have h2: "(0::int) \<le> 7" "(7::int) < 2 ^ 53" by simp_all
  have h4: "checksum_token example_env example_range = None" by code_simp
  have h5: "checksum_token example_env (replaceAll ''*'' (decimal (nat 7)) example_range) = None"
    by code_simp
  have h6: "(None :: bool option) \<noteq> Some True" by simp
  have h7: "checksum_wellformed example_env example_range" by code_simp
  have h8: "Descriptor_new example_env
        ((example_params example_range)\<lparr>expression := replaceAll ''*'' (decimal 7) example_range,
           index := NotInteger, checksumRequired := None\<rparr>)
        = Inr example_wpkh_descriptor" by code_simp
  show ?thesis
    using h1 h4 h5 h7 h8
      range_substitution [OF h1 h2 h4 h5 h6 h6, of "example_params example_range"
        example_wpkh_descriptor NotInteger "Some True"]
    by (simp add: example_params_def)
qed

text \<open>
  Claim C4 as stated fails for a range descriptor that carries its checksum: the
  checksum covers the text with its wildcards, so the text obtained by substituting in
  the whole descriptor has a stale checksum and is rejected, while the range descriptor
  at index 7 is constructed.
\<close>

theorem range_substitution_counterexample:
  "Descriptor_new example_env
     ((example_params (example_range @ ''#cjjspncu''))\<lparr>index := Integer 7\<rparr>)
     = Inr example_wpkh_descriptor
   \<and> Descriptor_new example_env
        ((example_params (replaceAll ''*'' (decimal 7) (example_range @ ''#cjjspncu'')))
           \<lparr>index := Integer 7\<rparr>)
     = Inl (InvalidChecksum (example_range_7 @ ''#cjjspncu''))"
  by code_simp

section \<open>The index without wildcards\<close>

lemma nie_Inr [simp]: "no_index_error (Inr v)"
  by (simp add: no_index_error_def)

lemma nie_Inl [simp]: "no_index_error (Inl e) = (\<forall>x. e \<noteq> InvalidIndex x)"
  by (auto simp: no_index_error_def)

lemma nie_bindE: "no_index_error m \<Longrightarrow> (\<And>v. no_index_error (f v)) \<Longrightarrow> no_index_error (bindE m f)"
  by (cases m) (auto simp: bindE_def)

lemma nie_external [simp]: "no_index_error (external name r)"
  by (cases r) (auto simp: external_def)

lemma nie_derivePath: "no_index_error (derivePath env node path)"
  by (simp add: derivePath_def Let_def split: option.splits)

lemma nie_extendedKey2PubKey:
  "(\<And>x. notMatched \<noteq> InvalidIndex x) \<Longrightarrow> no_index_error (extendedKey2PubKey env reX notMatched xKey net)"
  unfolding extendedKey2PubKey_def
  by (auto split: option.splits intro!: nie_bindE nie_derivePath)

lemma nie_keyExpression2PubKey: "no_index_error (keyExpression2PubKey env k n s)"
  unfolding keyExpression2PubKey_def Let_def
  by (auto split: option.splits intro!: nie_extendedKey2PubKey)

lemma nie_replace_keys: "no_index_error (replace_keys env net seg ms acc km)"
  by (induction ms arbitrary: acc km) (auto simp: Let_def intro!: nie_bindE nie_keyExpression2PubKey)

lemma nie_substitute_asm: "no_index_error (substitute_asm env km acc)"
  by (induction km arbitrary: acc) auto

lemma nie_substitute_satAsm: "no_index_error (substitute_satAsm km acc)"
  by (induction km arbitrary: acc) auto

lemma nie_encode_numbers: "no_index_error (encode_numbers env ns acc)"
  by (induction ns arbitrary: acc) (auto split: option.splits)



lemma nie_if: "no_index_error p \<Longrightarrow> no_index_error q \<Longrightarrow> no_index_error (if c then p else q)"
  by simp

lemma nie_prod: "(\<And>x y. no_index_error (f x y)) \<Longrightarrow> no_index_error (case p of (x, y) \<Rightarrow> f x y)"
  by (cases p) simp

lemma nie_option:
  "no_index_error p \<Longrightarrow> (\<And>x. no_index_error (f x)) \<Longrightarrow>
     no_index_error (case v of None \<Rightarrow> p | Some x \<Rightarrow> f x)"
  by (cases v) simp_all

lemma nie_list:
  "no_index_error p \<Longrightarrow> (\<And>x xs. no_index_error (f x xs)) \<Longrightarrow>
     no_index_error (case v of [] \<Rightarrow> p | x # xs \<Rightarrow> f x xs)"
  by (cases v) simp_all

lemmas nie_intros = nie_bindE nie_if nie_prod nie_option nie_list

lemma nie_solveMiniscript: "no_index_error (solveMiniscript env m s u n)"
  unfolding solveMiniscript_def Let_def
  by (intro nie_intros nie_replace_keys nie_substitute_asm nie_substitute_satAsm
        nie_encode_numbers nie_Inr) simp_all

lemma nie_countNonPushOnlyOPs: "no_index_error (countNonPushOnlyOPs env script)"
  by (simp add: countNonPushOnlyOPs_def split: option.splits)

lemma nie_miniscript_envelope:
  "no_index_error solving \<Longrightarrow> (\<And>v. no_index_error (pay v)) \<Longrightarrow>
     no_index_error (miniscript_envelope env solving limit pay)"
  unfolding miniscript_envelope_def Let_def
  by (intro nie_intros nie_countNonPushOnlyOPs nie_Inr) simp_all

lemma nie_key_envelope:
  "(\<And>v. no_index_error (pay v)) \<Longrightarrow>
     no_index_error (key_envelope env expr ie k opening closing net s pay)"
  unfolding key_envelope_def
  by (intro nie_intros nie_keyExpression2PubKey nie_Inr) simp_all

lemma nie_realize: "no_index_error (realize env a ie)"
  unfolding realize_def Let_def
  by (intro nie_intros nie_key_envelope nie_miniscript_envelope nie_solveMiniscript
        nie_external nie_Inr) simp_all


lemma isolate_without_wildcard:
  assumes "CHR ''*'' \<notin> set (without_checksum env e)"
  shows "isolate env e required i = isolate env e required j"
  using assms
  by (auto simp: isolate_unfold without_checksum_def wildcards_def split: option.splits)

lemma realize_cong:
  assumes "expression a = expression a'" "allowMiniscriptInP2SH a = allowMiniscriptInP2SH a'"
    "unknowns a = unknowns a'" "network a = network a'"
  shows "realize env a = realize env a'"
  unfolding realize_def assms by (rule refl)

lemma realize_index: "realize env (a\<lparr>index := i\<rparr>) = realize env a"
  by (rule realize_cong) simp_all

text \<open>
  Claim C9. When the expression, once its checksum token is removed, holds no wildcard,
  the index is not looked at: construction gives the same result, success or error,
  for every index (an integer, negative or not, or anything else, \<open>NotInteger\<close>
  standing for a fractional or an absent index), and that result is never
  \<open>InvalidIndex\<close>.
\<close>

theorem index_ignored_without_wildcard:
  assumes "CHR ''*'' \<notin> set (without_checksum env (expression a))"
  shows "Descriptor_new env (a\<lparr>index := i\<rparr>) = Descriptor_new env a
         \<and> (\<forall>x. Descriptor_new env a \<noteq> Inl (InvalidIndex x))"
proof -
  let ?r = "case checksumRequired a of None \<Rightarrow> False | Some b \<Rightarrow> b"
  have same: "isolate env (expression a) ?r i = isolate env (expression a) ?r (index a)"
    by (rule isolate_without_wildcard [OF assms])
  have first: "Descriptor_new env (a\<lparr>index := i\<rparr>) = Descriptor_new env a"
    by (simp add: Descriptor_new_def Let_def same realize_index)
  have "no_index_error (isolate env (expression a) ?r (index a))"
    using assms
    by (auto simp: isolate_unfold without_checksum_def wildcards_def split: option.splits)
  then have "no_index_error (Descriptor_new env a)"
    unfolding Descriptor_new_def Let_def by (intro nie_bindE nie_realize)
  then show ?thesis using first by (simp add: no_index_error_def)
qed

text \<open>The address descriptor with its checksum, constructed with index \<open>-1\<close> and with none.\<close>

theorem index_ignored_without_wildcard_witness:
  "CHR ''*'' \<notin> set (without_checksum example_env (example_addr @ ''#uyjndxcw''))
   \<and> Descriptor_new example_env ((example_params (example_addr @ ''#uyjndxcw''))\<lparr>index := Integer (- 1)\<rparr>)
       = Inr example_addr_descriptor
   \<and> Descriptor_new example_env (example_params (example_addr @ ''#uyjndxcw''))
       = Inr example_addr_descriptor"
proof -
  have h1: "CHR ''*'' \<notin> set (without_checksum example_env
      (expression (example_params (example_addr @ ''#uyjndxcw''))))" by code_simp
  have h2: "Descriptor_new example_env (example_params (example_addr @ ''#uyjndxcw''))
       = Inr example_addr_descriptor" by code_simp
  show ?thesis
    using h1 h2 index_ignored_without_wildcard [OF h1, of "Integer (- 1)"]
    by (simp add: example_params_def)
qed

section \<open>Raw public keys\<close>

lemma length_Buffer_from_hex: "is_hex s \<Longrightarrow> length (Buffer_from_hex s) = length s div 2"
  by (induction s rule: Buffer_from_hex.induct) (auto simp: is_hex_def)

lemma is_hex_literal [simp]: "is_hex ''02''" "is_hex ''03''" "is_hex ''04''"
  by (simp_all add: is_hex_def hex_chars_def)

lemma is_hex_append [simp]: "is_hex (a @ b) = (is_hex a \<and> is_hex b)"
  by (simp add: is_hex_def)

lemma pubkey_shape:
  assumes "take 2 k = p" "length k = Suc (Suc n)"
  shows "k = p @ drop 2 k" "length (drop 2 k) = n"
  using assms append_take_drop_id [of 2 k] by auto

lemma rmatch_hex_pubkey:
  assumes "is_hex h" "length h = n"
  shows "rmatch (Seq (Lit p) (Rep n n (Cls hex_chars))) (g, b, p @ h) = [(g, rev (p @ h) @ b, [])]"
  using assms by (simp add: rep_exact_Cls is_hex_def list_all_iff subset_iff)

lemma match_compressed:
  assumes "is_compressed_pubkey k"
  shows "js_match k (anchorStartAndEnd rePubKey) = Some \<lparr>m_index = 0, m0 = k, m1 = None\<rparr>"
proof -
  obtain p where p: "p = ''02'' \<or> p = ''03''" "take 2 k = p"
    using assms by (auto simp: is_compressed_pubkey_def)
  define h where "h = drop 2 k"
  have k: "k = p @ h" and h: "is_hex h" "length h = 64"
    using assms p pubkey_shape [of k p 64] by (auto simp: is_compressed_pubkey_def h_def)
  have hex: "rmatch (Rep 64 64 (Cls hex_chars)) (None, rev p, h) = [(None, rev h @ rev p, [])]"
    using h by (simp add: rep_exact_Cls is_hex_def list_all_iff subset_iff)
  have "rmatch (anchorStartAndEnd rePubKey) (None, [], p @ h) = [(None, rev (p @ h), [])]"
    using p(1) h hex
    by (auto simp: anchorStartAndEnd_def rePubKey_def reCompressedPubKey_def
        reUncompressedPubKey_def simp del: rmatch.simps(14))
  moreover obtain c cs where "p @ h = c # cs" using p(1) by auto
  ultimately show ?thesis
    unfolding k js_match_def by (simp add: remaining_def del: rmatch.simps)
qed


lemma match_uncompressed:
  assumes "is_uncompressed_pubkey k"
  shows "js_match k (anchorStartAndEnd rePubKey) = Some \<lparr>m_index = 0, m0 = k, m1 = None\<rparr>"
proof -
  define h where "h = drop 2 k"
  have k: "k = ''04'' @ h" and h: "is_hex h" "length h = 128"
    using assms pubkey_shape [of k "''04''" 128] by (auto simp: is_uncompressed_pubkey_def h_def)
  have hex: "rmatch (Rep 128 128 (Cls hex_chars)) (None, ''40'', h) = [(None, rev h @ ''40'', [])]"
    using h by (simp add: rep_exact_Cls is_hex_def list_all_iff subset_iff)
  have "rmatch (anchorStartAndEnd rePubKey) (None, [], ''04'' @ h) = [(None, rev (''04'' @ h), [])]"
    using h hex
    by (auto simp: anchorStartAndEnd_def rePubKey_def reCompressedPubKey_def
        reUncompressedPubKey_def simp del: rmatch.simps(14))
  then show ?thesis
    unfolding k js_match_def by (simp add: remaining_def del: rmatch.simps)
qed

lemma is_hex_take_drop: "is_hex (take n k) \<Longrightarrow> is_hex (drop n k) \<Longrightarrow> is_hex k"
  by (metis append_take_drop_id is_hex_append)

lemma length_pubkey:
  "is_compressed_pubkey k \<Longrightarrow> length (Buffer_from_hex k) = 33"
  "is_uncompressed_pubkey k \<Longrightarrow> length (Buffer_from_hex k) = 65"
proof -
  assume a: "is_compressed_pubkey k"
  then have "is_hex (take 2 k)" "is_hex (drop 2 k)"
    by (auto simp: is_compressed_pubkey_def)
  then have "is_hex k" by (rule is_hex_take_drop)
  then show "length (Buffer_from_hex k) = 33"
    using a by (simp add: length_Buffer_from_hex is_compressed_pubkey_def)
next
  assume a: "is_uncompressed_pubkey k"
  then have "is_hex (take 2 k)" "is_hex (drop 2 k)"
    by (auto simp: is_uncompressed_pubkey_def)
  then have "is_hex k" by (rule is_hex_take_drop)
  then show "length (Buffer_from_hex k) = 65"
    using a by (simp add: length_Buffer_from_hex is_uncompressed_pubkey_def)
qed

lemma raw_pubkey_resolution:
  assumes "is_key_expression k"
    and "is_compressed_pubkey (actual_key k) \<or> is_uncompressed_pubkey (actual_key k)"
  shows "keyExpression2PubKey env k net s =
     (if \<not> isPoint env (Buffer_from_hex (actual_key k))
         \<or> ((case s of None \<Rightarrow> True | Some b \<Rightarrow> b) \<and> is_uncompressed_pubkey (actual_key k))
      then Inl InvalidPubKey else Inr (Buffer_from_hex (actual_key k)))"
proof -
  have valid: "\<not> (case js_match k reKeyExp of None \<Rightarrow> True | Some m \<Rightarrow> m0 m \<noteq> k)"
    using assms(1) by (simp add: is_key_expression_def split: option.splits)
  have m: "js_match (actual_key k) (anchorStartAndEnd rePubKey)
           = Some \<lparr>m_index = 0, m0 = actual_key k, m1 = None\<rparr>"
    using assms(2) match_compressed match_uncompressed by blast
  have len: "length (Buffer_from_hex (actual_key k)) = (if is_uncompressed_pubkey (actual_key k) then 65 else 33)"
    using assms(2) length_pubkey [of "actual_key k"] by auto
  show ?thesis
    unfolding keyExpression2PubKey_def Let_def
    using valid m len by (simp add: actual_key_def [symmetric])
qed

text \<open>A raw public key on its own, with no origin, is a key expression and its own actual key.\<close>

lemma raw_pubkey_is_key_expression:
  assumes "is_compressed_pubkey k \<or> is_uncompressed_pubkey k"
  shows "is_key_expression k \<and> actual_key k = k"
proof -
  obtain p h n where k: "k = p @ h" and p: "p = ''02'' \<or> p = ''03'' \<or> p = ''04''"
    and h: "is_hex h" "length h = n" and n: "(p = ''04'' \<and> n = 128) \<or> (p \<noteq> ''04'' \<and> n = 64)"
  proof (cases "is_uncompressed_pubkey k")
    case True
    then show ?thesis
      using that [of "''04''" "drop 2 k" 128] pubkey_shape [of k "''04''" 128]
      by (auto simp: is_uncompressed_pubkey_def)
  next
    case False
    then have c: "is_compressed_pubkey k" using assms by simp
    then obtain q where q: "q = ''02'' \<or> q = ''03''" "take 2 k = q"
      by (auto simp: is_compressed_pubkey_def)
    then show ?thesis
      using c that [of q "drop 2 k" 64] pubkey_shape [of k q 64]
      by (auto simp: is_compressed_pubkey_def)
  qed
  have hex: "rmatch (Rep n n (Cls hex_chars)) (None, rev p, h) = [(None, rev h @ rev p, [])]"
    using h by (simp add: rep_exact_Cls is_hex_def list_all_iff subset_iff)
  have key: "rmatch reKeyExp (None, [], p @ h) = [(None, rev (p @ h), [])]"
    using p n hex
    by (auto simp: reKeyExp_def reOrigin_def reActualKey_def reXpubKey_def reXprvKey_def
        reXpub_def reXprv_def rePubKey_def reCompressedPubKey_def reUncompressedPubKey_def
        reWIF_def simp del: rmatch.simps(14))
  have origin: "rmatch (Seq Bol (Opt reOrigin)) (None, [], p @ h) = [(None, [], p @ h)]"
    using p by (auto simp: reOrigin_def)
  obtain c cs where c: "p @ h = c # cs" using p by auto
  have "js_match k reKeyExp = Some \<lparr>m_index = 0, m0 = k, m1 = None\<rparr>"
    unfolding k js_match_def using key c by (simp add: remaining_def del: rmatch.simps)
  moreover have "js_match k (Seq Bol (Opt reOrigin)) = Some \<lparr>m_index = 0, m0 = [], m1 = None\<rparr>"
    unfolding k js_match_def using origin c by (simp add: remaining_def del: rmatch.simps)
  ultimately show ?thesis
    by (simp add: is_key_expression_def actual_key_def js_replace_first_def)
qed

text \<open>
  Claim C5. Let \<open>k\<close> be a key expression, that is, a string that passes the validation of
  the resolver. When its actual key (the key expression without its origin) is a raw
  uncompressed public key, resolution in a SegWit context (\<open>isSegwit\<close> true, also by
  default) fails with \<open>InvalidPubKey\<close>. Without SegWit, a raw public key of either
  form that the curve provider's \<open>isPoint\<close> accepts is resolved to its 33 or 65 bytes.
\<close>

theorem segwit_requires_compressed:
  assumes "is_key_expression k"
  shows "(is_uncompressed_pubkey (actual_key k) \<longrightarrow>
            keyExpression2PubKey env k net (Some True) = Inl InvalidPubKey
            \<and> keyExpression2PubKey env k net None = Inl InvalidPubKey)
       \<and> ((is_compressed_pubkey (actual_key k) \<or> is_uncompressed_pubkey (actual_key k))
            \<and> isPoint env (Buffer_from_hex (actual_key k)) \<longrightarrow>
            keyExpression2PubKey env k net (Some False) = Inr (Buffer_from_hex (actual_key k)))"
  using raw_pubkey_resolution [OF assms, of env net] by simp

text \<open>The uncompressed generator point behind an origin.\<close>

theorem segwit_requires_compressed_witness:
  "is_key_expression example_key_expression
   \<and> is_uncompressed_pubkey (actual_key example_key_expression)
   \<and> isPoint example_env (Buffer_from_hex (actual_key example_key_expression))
   \<and> keyExpression2PubKey example_env example_key_expression (Some bitcoin) (Some True) = Inl InvalidPubKey
   \<and> keyExpression2PubKey example_env example_key_expression (Some bitcoin) None = Inl InvalidPubKey
   \<and> keyExpression2PubKey example_env example_key_expression (Some bitcoin) (Some False)
       = Inr (Buffer_from_hex G_uncompressed)"
proof -
  have h1: "is_key_expression example_key_expression" by code_simp
  have h2: "is_uncompressed_pubkey (actual_key example_key_expression)" by code_simp
  have h3: "isPoint example_env (Buffer_from_hex (actual_key example_key_expression))" by code_simp
  have h4: "actual_key example_key_expression = G_uncompressed" by code_simp
  show ?thesis
    using h1 h2 h3 segwit_requires_compressed [OF h1, of example_env "Some bitcoin"]
    by (simp add: h4)
qed

text \<open>
  Claim C10. The static resolver takes \<open>isSegwit\<close> to be true when the caller leaves it
  out: for a key expression whose actual key is a raw uncompressed public key that
  \<open>isPoint\<close> accepts, the call without \<open>isSegwit\<close> fails with \<open>InvalidPubKey\<close>, and the
  call with \<open>isSegwit = false\<close> returns the 65 bytes of the key.
\<close>

theorem static_resolver_defaults_to_segwit:
  assumes "is_key_expression k" and "is_uncompressed_pubkey (actual_key k)"
    and "isPoint env (Buffer_from_hex (actual_key k))"
  shows "Descriptor_keyExpression2PubKey env k net None = Inl InvalidPubKey
       \<and> Descriptor_keyExpression2PubKey env k net (Some False) = Inr (Buffer_from_hex (actual_key k))
       \<and> length (Buffer_from_hex (actual_key k)) = 65"
  using raw_pubkey_resolution [OF assms(1), of env] assms(2,3) length_pubkey(2) [OF assms(2)]
  by (simp add: Descriptor_keyExpression2PubKey_def)

text \<open>The uncompressed generator point, resolved with and without \<open>isSegwit\<close>.\<close>

theorem static_resolver_defaults_to_segwit_witness:
  "is_key_expression G_uncompressed
   \<and> is_uncompressed_pubkey (actual_key G_uncompressed)
   \<and> isPoint example_env (Buffer_from_hex (actual_key G_uncompressed))
   \<and> Descriptor_keyExpression2PubKey example_env G_uncompressed None None = Inl InvalidPubKey
   \<and> Descriptor_keyExpression2PubKey example_env G_uncompressed None (Some False)
       = Inr (Buffer_from_hex G_uncompressed)"
proof -
  have h1: "is_key_expression G_uncompressed" by code_simp
  have h2: "is_uncompressed_pubkey (actual_key G_uncompressed)" by code_simp
  have h3: "isPoint example_env (Buffer_from_hex (actual_key G_uncompressed))" by code_simp
  have h4: "actual_key G_uncompressed = G_uncompressed" by code_simp
  show ?thesis
    using h1 h2 h3 static_resolver_defaults_to_segwit [OF h1 h2 h3, of None]
    by (simp add: h4)
qed

section \<open>Derivation paths\<close>
















section \<open>Duplicate keys\<close>

lemma digit_values: "list_all (\<lambda>k. digit_value (digit_char k) = int k) [0..<10]"
  by code_simp

lemma digit_value_digit_char: "digit_value (digit_char n) = int (n mod 10)"
proof -
  have "n mod 10 \<in> set [0..<10]" by simp
  then have "digit_value (digit_char (n mod 10)) = int (n mod 10)"
    using digit_values unfolding list_all_iff by blast
  then show ?thesis by (simp add: digit_char_def)
qed

lemma digits_value_snoc: "digits_value (d @ [c]) = 10 * digits_value d + digit_value c"
  by (simp add: digits_value_def)

lemma digits_value_decimal: "digits_value (decimal n) = int n"
proof (induction n rule: decimal.induct)
  case (1 n)
  show ?case
  proof (cases "n < 10")
    case True
    then show ?thesis
      by (subst decimal.simps) (simp add: digits_value_def digit_value_digit_char)
  next
    case False
    then have "digits_value (decimal n) = 10 * int (n div 10) + int (n mod 10)"
      using 1 by (subst decimal.simps) (simp add: digits_value_snoc digit_value_digit_char)
    then show ?thesis by presburger
  qed
qed

lemma placeholder_inj: "placeholder i = placeholder j \<Longrightarrow> i = j"
proof -
  assume "placeholder i = placeholder j"
  then have "decimal i = decimal j" by (simp add: placeholder_def)
  then have "digits_value (decimal i) = digits_value (decimal j)" by simp
  then show "i = j" by (simp add: digits_value_decimal)
qed


lemma keyMap_set_fresh:
  assumes "map fst km = map placeholder [0..<length km]"
  shows "keyMap_set km (placeholder (length km)) v = km @ [(placeholder (length km), v)]"
proof -
  have "placeholder (length km) \<notin> set (map fst km)"
    unfolding assms using placeholder_inj by fastforce
  then show ?thesis by (simp add: keyMap_set_def)
qed

lemma replace_keys_resolved:
  assumes "list_all (resolves env net seg) (map snd ms)"
    and "map fst km = map placeholder [0..<length km]"
  shows "\<exists>acc' km' pks. replace_keys env net seg ms acc km = Inr (acc', km')
           \<and> map snd km' = map snd km @ map toString_hex pks
           \<and> map Inr pks = map (\<lambda>k. keyExpression2PubKey env k (Some net) (Some seg)) (map snd ms)"
  using assms
proof (induction ms arbitrary: acc km)
  case Nil
  then show ?case by simp
next
  case (Cons m ms)
  obtain skipped k where m: "m = (skipped, k)" by (cases m)
  obtain pubkey where r: "keyExpression2PubKey env k (Some net) (Some seg) = Inr pubkey"
    using Cons.prems(1) by (auto simp: m resolves_def split: sum.splits)
  let ?km = "km @ [(placeholder (length km), toString_hex pubkey)]"
  have inv: "map fst ?km = map placeholder [0..<length ?km]"
    using Cons.prems(2) by simp
  have rest: "list_all (resolves env net seg) (map snd ms)"
    using Cons.prems(1) by simp
  obtain acc' km' pks where ih:
    "replace_keys env net seg ms (acc @ skipped @ placeholder (length km)) ?km = Inr (acc', km')"
    "map snd km' = map snd ?km @ map toString_hex pks"
    "map Inr pks = map (\<lambda>k. keyExpression2PubKey env k (Some net) (Some seg)) (map snd ms)"
    using Cons.IH [OF rest inv] by blast
  have step: "replace_keys env net seg (m # ms) acc km = Inr (acc', km')"
    using ih(1) r keyMap_set_fresh [OF Cons.prems(2)]
    by (simp add: m bindE_def Let_def placeholder_def)
  show ?case
  proof (intro exI conjI)
    show "replace_keys env net seg (m # ms) acc km = Inr (acc', km')" by (rule step)
    show "map snd km' = map snd km @ map toString_hex (pubkey # pks)"
      using ih(2) by simp
    show "map Inr (pubkey # pks)
          = map (\<lambda>k. keyExpression2PubKey env k (Some net) (Some seg)) (map snd (m # ms))"
      using ih(3) r by (simp add: m)
  qed
qed

text \<open>
  Claim C6, as amended. Let every key expression that the scan finds in a miniscript
  resolve, and let two of them (at different places, whether or not their texts differ)
  resolve to the same public key. Then solving fails with \<open>DuplicateKey\<close>. Nothing is
  assumed of the compiler and the satisfier: the comparison of the resolved keys with
  the placeholders comes before either is asked.
\<close>

theorem duplicate_keys_rejected:
  assumes "net = (case n of None \<Rightarrow> bitcoin | Some x \<Rightarrow> x)"
    and "seg = (case s of None \<Rightarrow> True | Some b \<Rightarrow> b)"
    and "list_all (resolves env net seg) (key_expressions m)"
    and "\<not> distinct (map (\<lambda>k. keyExpression2PubKey env k (Some net) (Some seg)) (key_expressions m))"
  shows "solveMiniscript env m s u n = Inl (DuplicateKey m)"
proof -
  obtain ms rest where scan: "js_match_all m reKeyExp = (ms, rest)" by (cases "js_match_all m reKeyExp")
  have keys: "key_expressions m = map snd ms" by (simp add: key_expressions_def scan)
  obtain acc' km' pks where rk:
    "replace_keys env net seg ms [] [] = Inr (acc', km')"
    "map snd km' = map toString_hex pks"
    "map Inr pks = map (\<lambda>k. keyExpression2PubKey env k (Some net) (Some seg)) (map snd ms)"
    using replace_keys_resolved [of env net seg ms "[]" "[]"] assms(3) keys by auto
  have "\<not> distinct (map (Inr :: Buffer \<Rightarrow> error + Buffer) pks)"
    using assms(4) rk(3) keys by simp
  then have "\<not> distinct pks" by (simp add: distinct_map)
  then have "\<not> distinct (map snd km')" unfolding rk(2) by (simp add: distinct_map)
  then have dup: "length (remdups (map snd km')) \<noteq> length (map snd km')"
    using length_remdups_eq [of "map snd km'"] remdups_id_iff_distinct [of "map snd km'"] by blast
  show ?thesis
    unfolding solveMiniscript_def Let_def scan assms(1,2) [symmetric]
    using rk(1) dup by (simp add: bindE_def)
qed

text \<open>One key, once bare and once behind an origin.\<close>

theorem duplicate_keys_rejected_witness:
  "key_expressions example_duplicate_miniscript = [G_compressed, ''[d34db33f]'' @ G_compressed]
   \<and> list_all (resolves example_env bitcoin True) (key_expressions example_duplicate_miniscript)
   \<and> \<not> distinct (map (\<lambda>k. keyExpression2PubKey example_env k (Some bitcoin) (Some True))
         (key_expressions example_duplicate_miniscript))
   \<and> solveMiniscript example_env example_duplicate_miniscript None None None
       = Inl (DuplicateKey example_duplicate_miniscript)"
proof -
  have h0: "key_expressions example_duplicate_miniscript = [G_compressed, ''[d34db33f]'' @ G_compressed]"
    by code_simp
  have h1: "bitcoin = (case None of None \<Rightarrow> bitcoin | Some x \<Rightarrow> x)"
    and h2: "True = (case None of None \<Rightarrow> True | Some b \<Rightarrow> b)" by simp_all
  have h3: "list_all (resolves example_env bitcoin True) (key_expressions example_duplicate_miniscript)"
    by code_simp
  have h4: "\<not> distinct (map (\<lambda>k. keyExpression2PubKey example_env k (Some bitcoin) (Some True))
         (key_expressions example_duplicate_miniscript))"
    by code_simp
  show ?thesis
    using h0 h3 h4 duplicate_keys_rejected [OF h1 h2 h3 h4, of None] by simp
qed

text \<open>
  Claim C6 as stated fails when another key expression of the miniscript does not
  resolve: the keys are resolved while the miniscript is scanned, before the duplicates
  are looked for, and the failure of the resolver is the error. Here the third key is
  uncompressed, in a SegWit context.
\<close>

theorem duplicate_keys_rejected_counterexample:
  "key_expressions example_unresolved_miniscript
     = [G_compressed, ''[d34db33f]'' @ G_compressed, G_uncompressed]
   \<and> keyExpression2PubKey example_env G_compressed (Some bitcoin) (Some True)
       = Inr (Buffer_from_hex G_compressed)
   \<and> keyExpression2PubKey example_env (''[d34db33f]'' @ G_compressed) (Some bitcoin) (Some True)
       = Inr (Buffer_from_hex G_compressed)
   \<and> solveMiniscript example_env example_unresolved_miniscript None None None = Inl InvalidPubKey"
  by code_simp

section \<open>Resource limits\<close>

lemma non_push_opcodes_counted:
  "length (non_push_opcodes chunks) \<le> length (filter (\<lambda>op. chunk_gt env op OP_16) chunks)"
  by (induction chunks) (auto simp: non_push_opcodes_def chunk_gt_def split: chunk.splits)

lemma key_envelope_satAsm:
  "key_envelope env expr ie k opening closing net s pay = Inr d \<Longrightarrow> d_satAsm d = None"
  by (auto simp: key_envelope_def bindE_def split: if_splits option.splits sum.splits)

lemma miniscript_envelope_success:
  assumes "miniscript_envelope env solving limit pay = Inr d"
  shows "\<exists>s. solving = Inr s \<and> limits_hold env (lockingScript s) limit
           \<and> pay (lockingScript s) = Inr (payment d) \<and> d_satAsm d = Some (satAsm s)"
proof -
  obtain s where s: "solving = Inr s"
    using assms by (cases solving) (auto simp: miniscript_envelope_def bindE_def)
  have size: "length (lockingScript s) \<le> limit"
    using assms by (auto simp: miniscript_envelope_def bindE_def s Let_def split: if_splits)
  obtain chunks where c: "decompile env (lockingScript s) = Some chunks"
    using assms size
    by (auto simp: miniscript_envelope_def bindE_def s Let_def countNonPushOnlyOPs_def
        split: option.splits)
  have n: "length (filter (\<lambda>op. chunk_gt env op OP_16) chunks) \<le> MAX_OPS_PER_SCRIPT"
    using assms size c
    by (auto simp: miniscript_envelope_def bindE_def s Let_def countNonPushOnlyOPs_def
        split: if_splits)
  obtain p where p: "pay (lockingScript s) = Inr p" "d = \<lparr>payment = p, d_satAsm = Some (satAsm s)\<rparr>"
    using assms size c n
    by (auto simp: miniscript_envelope_def bindE_def s Let_def countNonPushOnlyOPs_def
        split: sum.splits)
  show ?thesis
    using s size c n p non_push_opcodes_counted [of chunks env]
    by (auto simp: limits_hold_def)
qed

lemma miniscript_envelope_failure:
  "length (lockingScript s) > limit \<Longrightarrow>
     miniscript_envelope env (Inr s) limit pay = Inl (ScriptTooLarge (length (lockingScript s)) limit)"
  "length (lockingScript s) \<le> limit \<Longrightarrow> countNonPushOnlyOPs env (lockingScript s) = Inr n \<Longrightarrow>
     n > MAX_OPS_PER_SCRIPT \<Longrightarrow>
     miniscript_envelope env (Inr s) limit pay = Inl (TooManyOps n MAX_OPS_PER_SCRIPT)"
  by (simp_all add: miniscript_envelope_def bindE_def Let_def)


lemma external_success: "(external name r = Inr v) = (r = Some v)"
  by (cases r) (simp_all add: external_def)

lemma realize_miniscript:
  assumes "realize env a ie = Inr d" and "d_satAsm d = Some sat"
    and "net = (case network a of None \<Rightarrow> bitcoin | Some n \<Rightarrow> n)"
    and "cs = CHECKSUM_CHARSET env"
  shows "\<exists>miniscript script.
     (group1 ie (reShWshMiniscriptAnchored cs) = Some miniscript
        \<and> solveMiniscript env miniscript None (unknowns a) (Some net)
            = Inr \<lparr>lockingScript = script, satAsm = sat\<rparr>
        \<and> limits_hold env script MAX_STANDARD_P2WSH_SCRIPT_SIZE
        \<and> (\<exists>inner. p2wsh env (Payment None (Some script) None) net = Some inner
              \<and> p2sh env inner net = Some (payment d)))
     \<or> (group1 ie (reShMiniscriptAnchored cs) = Some miniscript
        \<and> solveMiniscript env miniscript (Some False) (unknowns a) (Some net)
            = Inr \<lparr>lockingScript = script, satAsm = sat\<rparr>
        \<and> limits_hold env script MAX_SCRIPT_ELEMENT_SIZE
        \<and> p2sh env (Payment None (Some script) None) net = Some (payment d))
     \<or> (group1 ie (reWshMiniscriptAnchored cs) = Some miniscript
        \<and> solveMiniscript env miniscript None (unknowns a) (Some net)
            = Inr \<lparr>lockingScript = script, satAsm = sat\<rparr>
        \<and> limits_hold env script MAX_STANDARD_P2WSH_SCRIPT_SIZE
        \<and> p2wsh env (Payment None (Some script) None) net = Some (payment d))"
proof -
  let ?addr = "group1 ie (reAddrAnchored cs)"
  have not_addr: "\<not> (?addr \<noteq> None \<and> ?addr \<noteq> Some [])"
  proof
    assume "?addr \<noteq> None \<and> ?addr \<noteq> Some []"
    then have "d_satAsm d = None"
      using assms(1) unfolding realize_def Let_def assms(3,4) [symmetric]
      by (auto split: option.splits)
    then show False using assms(2) by simp
  qed
  have not_key: "\<not> matches ie (rePkAnchored cs)" "\<not> matches ie (rePkhAnchored cs)"
    "\<not> matches ie (reShWpkhAnchored cs)" "\<not> matches ie (reWpkhAnchored cs)"
    using assms(1,2) not_addr key_envelope_satAsm [of env "expression a" ie _ _ _ net _ _ d]
    unfolding realize_def Let_def assms(3,4) [symmetric]
    by (auto split: if_splits)
  consider (shwsh) "matches ie (reShWshMiniscriptAnchored cs)"
    | (sh) "\<not> matches ie (reShWshMiniscriptAnchored cs)" "matches ie (reShMiniscriptAnchored cs)"
    | (wsh) "\<not> matches ie (reShWshMiniscriptAnchored cs)" "\<not> matches ie (reShMiniscriptAnchored cs)"
        "matches ie (reWshMiniscriptAnchored cs)"
    | (none) "\<not> matches ie (reShWshMiniscriptAnchored cs)" "\<not> matches ie (reShMiniscriptAnchored cs)"
        "\<not> matches ie (reWshMiniscriptAnchored cs)"
    by blast
  then show ?thesis
  proof cases
    case shwsh
    then obtain m where m: "group1 ie (reShWshMiniscriptAnchored cs) = Some m"
      and r: "miniscript_envelope env (solveMiniscript env m None (unknowns a) (Some net))
                MAX_STANDARD_P2WSH_SCRIPT_SIZE
                (\<lambda>script. bindE (external ''p2wsh'' (p2wsh env (Payment None (Some script) None) net))
                   (\<lambda>inner. external ''p2sh'' (p2sh env inner net))) = Inr d"
      using assms(1) not_addr not_key
      unfolding realize_def Let_def assms(3,4) [symmetric]
      by (auto split: if_splits option.splits)
    obtain s where s: "solveMiniscript env m None (unknowns a) (Some net) = Inr s"
      "limits_hold env (lockingScript s) MAX_STANDARD_P2WSH_SCRIPT_SIZE"
      "bindE (external ''p2wsh'' (p2wsh env (Payment None (Some (lockingScript s)) None) net))
         (\<lambda>inner. external ''p2sh'' (p2sh env inner net)) = Inr (payment d)"
      "d_satAsm d = Some (satAsm s)"
      using miniscript_envelope_success [OF r] by blast
    have "s = \<lparr>lockingScript = lockingScript s, satAsm = sat\<rparr>"
      using s(4) assms(2) by simp
    moreover have "\<exists>inner. p2wsh env (Payment None (Some (lockingScript s)) None) net = Some inner
              \<and> p2sh env inner net = Some (payment d)"
      using s(3) by (auto simp: bindE_def external_success split: sum.splits)
    ultimately show ?thesis using m s(1,2) by metis
  next
    case sh
    then obtain m where m: "group1 ie (reShMiniscriptAnchored cs) = Some m"
      and r: "miniscript_envelope env (solveMiniscript env m (Some False) (unknowns a) (Some net))
                MAX_SCRIPT_ELEMENT_SIZE
                (\<lambda>script. external ''p2sh'' (p2sh env (Payment None (Some script) None) net)) = Inr d"
      using assms(1) not_addr not_key
      unfolding realize_def Let_def assms(3,4) [symmetric]
      by (auto split: if_splits option.splits)
    obtain s where s: "solveMiniscript env m (Some False) (unknowns a) (Some net) = Inr s"
      "limits_hold env (lockingScript s) MAX_SCRIPT_ELEMENT_SIZE"
      "external ''p2sh'' (p2sh env (Payment None (Some (lockingScript s)) None) net) = Inr (payment d)"
      "d_satAsm d = Some (satAsm s)"
      using miniscript_envelope_success [OF r] by blast
    have "s = \<lparr>lockingScript = lockingScript s, satAsm = sat\<rparr>"
      using s(4) assms(2) by simp
    then show ?thesis using m s(1,2,3) unfolding external_success by metis
  next
    case wsh
    then obtain m where m: "group1 ie (reWshMiniscriptAnchored cs) = Some m"
      and r: "miniscript_envelope env (solveMiniscript env m None (unknowns a) (Some net))
                MAX_STANDARD_P2WSH_SCRIPT_SIZE
                (\<lambda>script. external ''p2wsh'' (p2wsh env (Payment None (Some script) None) net)) = Inr d"
      using assms(1) not_addr not_key
      unfolding realize_def Let_def assms(3,4) [symmetric]
      by (auto split: if_splits option.splits)
    obtain s where s: "solveMiniscript env m None (unknowns a) (Some net) = Inr s"
      "limits_hold env (lockingScript s) MAX_STANDARD_P2WSH_SCRIPT_SIZE"
      "external ''p2wsh'' (p2wsh env (Payment None (Some (lockingScript s)) None) net) = Inr (payment d)"
      "d_satAsm d = Some (satAsm s)"
      using miniscript_envelope_success [OF r] by blast
    have "s = \<lparr>lockingScript = lockingScript s, satAsm = sat\<rparr>"
      using s(4) assms(2) by simp
    then show ?thesis using m s(1,2,3) unfolding external_success by metis
  next
    case none
    then have False
      using assms(1) not_addr not_key
      unfolding realize_def Let_def assms(3,4) [symmetric]
      by (auto split: if_splits)
    then show ?thesis ..
  qed
qed


text \<open>
  Claim C7. A descriptor that is constructed and carries a satisfaction assembly (one
  of the miniscript envelopes) was made from a script that the solver returned for the
  miniscript inside the envelope, and that script is within the limits: at most 520
  bytes under \<open>sh\<close>, at most 3600 bytes under \<open>wsh\<close> and \<open>sh(wsh)\<close>, and in each case at
  most 201 decompiled opcodes above \<open>OP_16\<close>. The part the three branches share fails
  with \<open>ScriptTooLarge\<close> on a larger script and with \<open>TooManyOps\<close> when the count of
  \<open>countNonPushOnlyOPs\<close> is above 201.
\<close>

theorem resource_limits:
  assumes "net = (case network a of None \<Rightarrow> bitcoin | Some n \<Rightarrow> n)"
    and "cs = CHECKSUM_CHARSET env"
    and "required = (case checksumRequired a of None \<Rightarrow> False | Some b \<Rightarrow> b)"
  shows "(Descriptor_new env a = Inr d \<and> d_satAsm d = Some sat \<longrightarrow>
     (\<exists>ie miniscript script.
       isolate env (expression a) required (index a) = Inr ie
       \<and> ((group1 ie (reShWshMiniscriptAnchored cs) = Some miniscript
            \<and> solveMiniscript env miniscript None (unknowns a) (Some net)
                = Inr \<lparr>lockingScript = script, satAsm = sat\<rparr>
            \<and> limits_hold env script MAX_STANDARD_P2WSH_SCRIPT_SIZE
            \<and> (\<exists>inner. p2wsh env (Payment None (Some script) None) net = Some inner
                  \<and> p2sh env inner net = Some (payment d)))
          \<or> (group1 ie (reShMiniscriptAnchored cs) = Some miniscript
            \<and> solveMiniscript env miniscript (Some False) (unknowns a) (Some net)
                = Inr \<lparr>lockingScript = script, satAsm = sat\<rparr>
            \<and> limits_hold env script MAX_SCRIPT_ELEMENT_SIZE
            \<and> p2sh env (Payment None (Some script) None) net = Some (payment d))
          \<or> (group1 ie (reWshMiniscriptAnchored cs) = Some miniscript
            \<and> solveMiniscript env miniscript None (unknowns a) (Some net)
                = Inr \<lparr>lockingScript = script, satAsm = sat\<rparr>
            \<and> limits_hold env script MAX_STANDARD_P2WSH_SCRIPT_SIZE
            \<and> p2wsh env (Payment None (Some script) None) net = Some (payment d)))))
   \<and> (limit < length (lockingScript s) \<longrightarrow>
        miniscript_envelope env (Inr s) limit pay
          = Inl (ScriptTooLarge (length (lockingScript s)) limit))
   \<and> (length (lockingScript s) \<le> limit \<and> countNonPushOnlyOPs env (lockingScript s) = Inr n
        \<and> MAX_OPS_PER_SCRIPT < n \<longrightarrow>
        miniscript_envelope env (Inr s) limit pay = Inl (TooManyOps n MAX_OPS_PER_SCRIPT))"
proof (intro conjI impI)
  assume "Descriptor_new env a = Inr d \<and> d_satAsm d = Some sat"
  then have c: "Descriptor_new env a = Inr d" and sat: "d_satAsm d = Some sat" by simp_all
  obtain ie where ie: "isolate env (expression a) required (index a) = Inr ie"
    and r: "realize env a ie = Inr d"
    using c unfolding Descriptor_new_def Let_def assms(3) [symmetric]
    by (auto simp: bindE_def split: sum.splits)
  show "\<exists>ie miniscript script.
       isolate env (expression a) required (index a) = Inr ie
       \<and> ((group1 ie (reShWshMiniscriptAnchored cs) = Some miniscript
            \<and> solveMiniscript env miniscript None (unknowns a) (Some net)
                = Inr \<lparr>lockingScript = script, satAsm = sat\<rparr>
            \<and> limits_hold env script MAX_STANDARD_P2WSH_SCRIPT_SIZE
            \<and> (\<exists>inner. p2wsh env (Payment None (Some script) None) net = Some inner
                  \<and> p2sh env inner net = Some (payment d)))
          \<or> (group1 ie (reShMiniscriptAnchored cs) = Some miniscript
            \<and> solveMiniscript env miniscript (Some False) (unknowns a) (Some net)
                = Inr \<lparr>lockingScript = script, satAsm = sat\<rparr>
            \<and> limits_hold env script MAX_SCRIPT_ELEMENT_SIZE
            \<and> p2sh env (Payment None (Some script) None) net = Some (payment d))
          \<or> (group1 ie (reWshMiniscriptAnchored cs) = Some miniscript
            \<and> solveMiniscript env miniscript None (unknowns a) (Some net)
                = Inr \<lparr>lockingScript = script, satAsm = sat\<rparr>
            \<and> limits_hold env script MAX_STANDARD_P2WSH_SCRIPT_SIZE
            \<and> p2wsh env (Payment None (Some script) None) net = Some (payment d)))"
    using ie realize_miniscript [OF r sat assms(1,2)] by blast
next
  assume "limit < length (lockingScript s)"
  then show "miniscript_envelope env (Inr s) limit pay
          = Inl (ScriptTooLarge (length (lockingScript s)) limit)"
    by (rule miniscript_envelope_failure(1))
next
  assume "length (lockingScript s) \<le> limit \<and> countNonPushOnlyOPs env (lockingScript s) = Inr n
        \<and> MAX_OPS_PER_SCRIPT < n"
  then show "miniscript_envelope env (Inr s) limit pay = Inl (TooManyOps n MAX_OPS_PER_SCRIPT)"
    using miniscript_envelope_failure(2) by blast
qed

text \<open>
  The descriptor \<open>wsh(pk(KEY))\<close> of the examples, and a script of 202 signature checks
  against a limit of 200 bytes and against the limit on the operations.
\<close>

theorem resource_limits_witness:
  "Descriptor_new example_env (example_params example_wsh) = Inr example_wsh_descriptor
   \<and> d_satAsm example_wsh_descriptor = Some example_satAsm
   \<and> (\<exists>ie miniscript script.
        isolate example_env example_wsh False NotInteger = Inr ie
        \<and> group1 ie (reWshMiniscriptAnchored (CHECKSUM_CHARSET example_env)) = Some miniscript
        \<and> solveMiniscript example_env miniscript None None (Some bitcoin)
            = Inr \<lparr>lockingScript = script, satAsm = example_satAsm\<rparr>
        \<and> limits_hold example_env script MAX_STANDARD_P2WSH_SCRIPT_SIZE
        \<and> p2wsh example_env (Payment None (Some script) None) bitcoin
            = Some (payment example_wsh_descriptor))
   \<and> 200 < length (lockingScript example_long_script)
   \<and> miniscript_envelope opcode_env (Inr example_long_script) 200 (\<lambda>script. Inl NoAddress)
       = Inl (ScriptTooLarge 202 200)
   \<and> length (lockingScript example_long_script) \<le> 520
   \<and> countNonPushOnlyOPs opcode_env (lockingScript example_long_script) = Inr 202
   \<and> miniscript_envelope opcode_env (Inr example_long_script) 520 (\<lambda>script. Inl NoAddress)
       = Inl (TooManyOps 202 MAX_OPS_PER_SCRIPT)"
proof -
  have h1: "Descriptor_new example_env (example_params example_wsh) = Inr example_wsh_descriptor"
    by code_simp
  have h2: "d_satAsm example_wsh_descriptor = Some example_satAsm"
    by (simp add: example_wsh_descriptor_def)
  have h5: "bitcoin = (case network (example_params example_wsh) of None \<Rightarrow> bitcoin | Some n \<Rightarrow> n)"
    and h6: "False = (case checksumRequired (example_params example_wsh) of None \<Rightarrow> False | Some b \<Rightarrow> b)"
    by (simp_all add: example_params_def)
  have h7: "expression (example_params example_wsh) = example_wsh"
    "index (example_params example_wsh) = NotInteger"
    "unknowns (example_params example_wsh) = None"
    by (simp_all add: example_params_def)
  have not_sh: "group1 example_wsh (reShWshMiniscriptAnchored (CHECKSUM_CHARSET example_env)) = None"
    "group1 example_wsh (reShMiniscriptAnchored (CHECKSUM_CHARSET example_env)) = None"
    by code_simp+
  have iso: "isolate example_env example_wsh False NotInteger = Inr example_wsh" by code_simp
  have k1: "200 < length (lockingScript example_long_script)" by code_simp
  have k2: "length (lockingScript example_long_script) \<le> 520" by code_simp
  have k3: "countNonPushOnlyOPs opcode_env (lockingScript example_long_script) = Inr 202" by code_simp
  have k4: "MAX_OPS_PER_SCRIPT < 202" by (simp add: MAX_OPS_PER_SCRIPT_def)
  have k5: "length (lockingScript example_long_script) = 202" by code_simp
  note t1 = resource_limits [OF h5 refl h6, of example_env example_wsh_descriptor example_satAsm]
  note t2 = resource_limits [OF h5 refl h6, where env = opcode_env and s = example_long_script
      and limit = 200 and pay = "\<lambda>script. Inl NoAddress"]
  note t3 = resource_limits [OF h5 refl h6, where env = opcode_env and s = example_long_script
      and limit = 520 and n = 202 and pay = "\<lambda>script. Inl NoAddress"]
  have a: "\<exists>ie miniscript script.
        isolate example_env example_wsh False NotInteger = Inr ie
        \<and> group1 ie (reWshMiniscriptAnchored (CHECKSUM_CHARSET example_env)) = Some miniscript
        \<and> solveMiniscript example_env miniscript None None (Some bitcoin)
            = Inr \<lparr>lockingScript = script, satAsm = example_satAsm\<rparr>
        \<and> limits_hold example_env script MAX_STANDARD_P2WSH_SCRIPT_SIZE
        \<and> p2wsh example_env (Payment None (Some script) None) bitcoin
            = Some (payment example_wsh_descriptor)"
    using t1 h1 h2 not_sh unfolding h7 iso by auto
  have b: "miniscript_envelope opcode_env (Inr example_long_script) 200 (\<lambda>script. Inl NoAddress)
       = Inl (ScriptTooLarge 202 200)"
    using t2 k1 unfolding k5 by blast
  have c: "miniscript_envelope opcode_env (Inr example_long_script) 520 (\<lambda>script. Inl NoAddress)
       = Inl (TooManyOps 202 MAX_OPS_PER_SCRIPT)"
    using t3 k2 k3 k4 by blast
  show ?thesis using h1 h2 a k1 b k2 k3 c by blast
qed

section \<open>The address envelope\<close>

lemma isolate_example_addr: "isolate env example_addr False i = Inr example_addr"
  by code_simp

lemma matchedAddress_example_addr: "group1 example_addr (reAddrAnchored cs) = Some example_address"
  by code_simp

text \<open>
  Claim C1, at the address descriptor of the examples. Whenever the address decodes,
  the descriptor is constructed and \<open>getAddress\<close> returns the address, but the payment
  that is stored holds the address only: the script that \<open>toOutputScript\<close> returned is
  not kept, and \<open>getScriptPubKey\<close> fails.
\<close>

theorem addr_descriptor_without_scriptPubKey:
  assumes "toOutputScript env example_address bitcoin = Some script"
  shows "Descriptor_new env (example_params example_addr) = Inr example_addr_descriptor
       \<and> getPayment example_addr_descriptor = Payment (Some example_address) None None
       \<and> getAddress example_addr_descriptor = Inr example_address
       \<and> getScriptPubKey example_addr_descriptor = Inl NoScriptPubKey"
proof -
  have ne: "example_address \<noteq> []" by (simp add: example_address_def)
  have "realize env (example_params example_addr) example_addr = Inr example_addr_descriptor"
    unfolding realize_def Let_def
    using assms ne
    by (simp add: matchedAddress_example_addr example_params_def example_addr_descriptor_def)
  then have "Descriptor_new env (example_params example_addr) = Inr example_addr_descriptor"
    unfolding Descriptor_new_def Let_def
    by (simp add: example_params_def isolate_example_addr bindE_def)
  then show ?thesis
    using ne
    by (simp add: getPayment_def getAddress_def getScriptPubKey_def example_addr_descriptor_def)
qed

text \<open>With the example services, which decode the address.\<close>

theorem addr_descriptor_without_scriptPubKey_witness:
  "toOutputScript example_env example_address bitcoin
     = Some (Buffer_from_hex ''0014751e76e8199196d454941c45d1b3a323f1433bd6'')
   \<and> Descriptor_new example_env (example_params example_addr) = Inr example_addr_descriptor
   \<and> getScriptPubKey example_addr_descriptor = Inl NoScriptPubKey"
proof -
  have h: "toOutputScript example_env example_address bitcoin
     = Some (Buffer_from_hex ''0014751e76e8199196d454941c45d1b3a323f1433bd6'')" by code_simp
  show ?thesis using h addr_descriptor_without_scriptPubKey [OF h] by simp
qed

end
